theory Spec2Isabelle
  imports Complex_Main "HOL-Library.Word" "HOL-Library.Multiset"
    "HOL-Library.Char_ord" "HOL-Library.List_Lexorder"
begin

section \<open>Floating-point values\<close>

text \<open>
  The pipeline computes with IEEE doubles (Python, numpy) and single-precision tensors
  (TensorFlow). A finite value is modelled by the real number it denotes, and the two zeros
  are identified. The special values are kept, because numpy and TensorFlow return them
  where Python would raise: \<open>0/0\<close> is NaN and \<open>x/0\<close> is an infinity. Overflow is not
  modelled. Rounding is modelled where a statement is about the value computed, in the
  Percentage Extractor and in the midpoints of the Threshold Selector, by the function
  \<open>rnd\<close> that takes the real result of an operation to the double returned; the
  operations below are the exact ones.
\<close>

datatype pyfloat = Fin real | PInf | NInf | NaN

fun flt :: "pyfloat \<Rightarrow> pyfloat \<Rightarrow> bool" where
  "flt NaN _ = False"
| "flt _ NaN = False"
| "flt (Fin a) (Fin b) = (a < b)"
| "flt _ NInf = False"
| "flt NInf _ = True"
| "flt PInf _ = False"
| "flt (Fin a) PInf = True"

fun feq :: "pyfloat \<Rightarrow> pyfloat \<Rightarrow> bool" where
  "feq NaN _ = False"
| "feq _ NaN = False"
| "feq a b = (a = b)"

definition fle :: "pyfloat \<Rightarrow> pyfloat \<Rightarrow> bool" where
  "fle a b = (flt a b \<or> feq a b)"

fun fneg :: "pyfloat \<Rightarrow> pyfloat" where
  "fneg (Fin a) = Fin (- a)"
| "fneg PInf = NInf"
| "fneg NInf = PInf"
| "fneg NaN = NaN"

fun fadd :: "pyfloat \<Rightarrow> pyfloat \<Rightarrow> pyfloat" where
  "fadd NaN _ = NaN"
| "fadd _ NaN = NaN"
| "fadd (Fin a) (Fin b) = Fin (a + b)"
| "fadd PInf NInf = NaN"
| "fadd NInf PInf = NaN"
| "fadd PInf _ = PInf"
| "fadd NInf _ = NInf"
| "fadd (Fin a) b = b"

definition fsub :: "pyfloat \<Rightarrow> pyfloat \<Rightarrow> pyfloat" where
  "fsub a b = fadd a (fneg b)"

text \<open>The sign of an infinite product or quotient: the infinity \<open>i\<close> as it is when the
  other operand is positive, negated when it is negative.\<close>

definition signed_inf :: "pyfloat \<Rightarrow> real \<Rightarrow> pyfloat" where
  "signed_inf i a = (if a = 0 then NaN else if 0 < a then i else fneg i)"

fun fmul :: "pyfloat \<Rightarrow> pyfloat \<Rightarrow> pyfloat" where
  "fmul NaN _ = NaN"
| "fmul _ NaN = NaN"
| "fmul (Fin a) (Fin b) = Fin (a * b)"
| "fmul (Fin a) i = signed_inf i a"
| "fmul i (Fin b) = signed_inf i b"
| "fmul PInf i = i"
| "fmul NInf i = fneg i"

text \<open>Division as numpy and TensorFlow do it: no exception, \<open>0/0\<close> is NaN.\<close>

fun fdiv :: "pyfloat \<Rightarrow> pyfloat \<Rightarrow> pyfloat" where
  "fdiv NaN _ = NaN"
| "fdiv _ NaN = NaN"
| "fdiv (Fin a) (Fin b) = (if b = 0 then signed_inf PInf a else Fin (a / b))"
| "fdiv (Fin a) _ = Fin 0"
| "fdiv i (Fin b) = (if b = 0 then i else signed_inf i b)"
| "fdiv _ _ = NaN"

definition fsum :: "pyfloat list \<Rightarrow> pyfloat" where
  "fsum xs = foldl fadd (Fin 0) xs"

text \<open>The result of an operation as the double returned. The special values are
  doubles.\<close>

fun fround :: "(real \<Rightarrow> real) \<Rightarrow> pyfloat \<Rightarrow> pyfloat" where
  "fround rnd (Fin a) = Fin (rnd a)"
| "fround rnd x = x"

text \<open>
  What the proofs use of the rounding of binary64 arithmetic: it is monotone, and it leaves
  the doubles 0, 1, 100, \<open>2 ^ 64\<close> and \<open>1 / 2 ^ 64\<close> as they are.
\<close>

definition float_rounding :: "(real \<Rightarrow> real) \<Rightarrow> bool" where
  "float_rounding rnd =
     (mono rnd \<and> rnd 0 = 0 \<and> rnd 1 = 1 \<and> rnd 100 = 100 \<and> rnd (2 ^ 64) = 2 ^ 64
      \<and> rnd (1 / 2 ^ 64) = 1 / 2 ^ 64)"

text \<open>A rounding to run the extractor with: to the nearest multiple of \<open>1 / 2 ^ 64\<close>, a
  tie upwards.\<close>

definition fix64 :: "real \<Rightarrow> real" where
  "fix64 x = of_int \<lfloor>x * 2 ^ 64 + 1 / 2\<rfloor> / 2 ^ 64"

section \<open>Percentage Extractor\<close>

text \<open>
  \<open>Image.open(mask_path).convert('L')\<close> followed by \<open>np.array\<close> gives a two-dimensional
  array of unsigned bytes. The decoder is outside the repository: the file system maps a
  path to the decoded rows, or to the text of the exception that opening it raises.
  \<open>listdir\<close> gives the entries of a directory in any order; \<open>main\<close> returns before the
  batch when a directory does not exist.
\<close>

type_synonym mask_array = "8 word list list"

record filesystem =
  listdir :: "string \<Rightarrow> string list"
  path_exists :: "string \<Rightarrow> bool"
  open_L :: "string \<Rightarrow> string + mask_array"

definition binary_mask :: "mask_array \<Rightarrow> nat list" where
  "binary_mask mask_array = map (\<lambda>p. if 127 < p then 1 else 0) (concat mask_array)"

text \<open>
  \<open>calculate_corroded_percentage\<close>: the value returned (\<open>None\<close> from the \<open>except\<close>
  branch) and the lines printed. The quotient is a numpy scalar division, so an array
  without elements gives NaN and no exception. The two counts are integers and are
  converted to doubles for the division; the quotient and the product are rounded, each
  to a double.
\<close>

definition calculate_corroded_percentage :: "(real \<Rightarrow> real) \<Rightarrow> filesystem \<Rightarrow> string
    \<Rightarrow> pyfloat option \<times> string list" where
  "calculate_corroded_percentage rnd fs mask_path =
     (case open_L fs mask_path of
        Inl e \<Rightarrow> (None, [''Error processing '' @ mask_path @ '': '' @ e])
      | Inr mask_array \<Rightarrow>
          (let bm = binary_mask mask_array;
               total_pixels = length bm;
               corroded_pixels = sum_list bm;
               quotient = fround rnd (fdiv (Fin (rnd (real corroded_pixels)))
                                           (Fin (rnd (real total_pixels))));
               percentage = fround rnd (fmul quotient (Fin 100))
           in (Some percentage, [])))"

section \<open>Labeler\<close>

text \<open>A record of the result list: a Python dict whose \<open>'class'\<close> key is absent until
  \<open>classify_images\<close> writes it.\<close>

record image_record =
  original_path :: string
  mask_path :: string
  percentage :: pyfloat
  filename :: string
  cls :: "nat option"

definition classify :: "pyfloat \<Rightarrow> pyfloat \<Rightarrow> pyfloat \<Rightarrow> nat" where
  "classify p threshold_low threshold_high =
     (if flt p threshold_low then 0
      else if flt p threshold_high then 1
      else 2)"

definition classify_images :: "image_record list \<Rightarrow> pyfloat \<Rightarrow> pyfloat \<Rightarrow> image_record list" where
  "classify_images results threshold_low threshold_high =
     map (\<lambda>result. result\<lparr>cls := Some (classify (percentage result) threshold_low threshold_high)\<rparr>) results"

section \<open>Batch analysis\<close>

datatype py_error = AssertionError | KeyError | IndexError | ZeroDivisionError
  | ValueError | TypeError | UnboundLocalError | AttributeError | LibraryError string

definition digit_char :: "nat \<Rightarrow> char" where
  "digit_char d = ''0123456789'' ! d"

text \<open>The decimal text of a non-negative integer, as an f-string prints it.\<close>

function str_nat :: "nat \<Rightarrow> string" where
  "str_nat n = (if n < 10 then [digit_char n] else str_nat (n div 10) @ [digit_char (n mod 10)])"
  by pat_completeness auto
termination
  by (relation "measure id") auto

declare str_nat.simps [simp del]

fun startswith :: "string \<Rightarrow> string \<Rightarrow> bool" where
  "startswith s [] = True"
| "startswith [] (p # ps) = False"
| "startswith (c # cs) (p # ps) = (c = p \<and> startswith cs ps)"

definition endswith :: "string \<Rightarrow> string \<Rightarrow> bool" where
  "endswith s suf = (length suf \<le> length s \<and> drop (length s - length suf) s = suf)"

text \<open>\<open>sub in s\<close> on strings.\<close>

fun contains :: "string \<Rightarrow> string \<Rightarrow> bool" where
  "contains [] sub = (sub = [])"
| "contains (c # cs) sub = (startswith (c # cs) sub \<or> contains cs sub)"

text \<open>\<open>s.replace(old, new)\<close> for a non-empty \<open>old\<close> (the only call passes a
  literal): every occurrence, left to right, without overlap.\<close>

function str_replace :: "string \<Rightarrow> string \<Rightarrow> string \<Rightarrow> string" where
  "str_replace old new s =
     (if s = [] \<or> old = [] then s
      else if startswith s old then new @ str_replace old new (drop (length old) s)
      else hd s # str_replace old new (tl s))"
  by pat_completeness auto
termination
  by (relation "measure (\<lambda>(old, new, s). length s)") auto

declare str_replace.simps [simp del]

text \<open>\<open>os.path.join\<close> of two components on a POSIX system.\<close>

definition path_join :: "string \<Rightarrow> string \<Rightarrow> string" where
  "path_join a b =
     (if startswith b ''/'' then b
      else if a = [] \<or> endswith a ''/'' then a @ b
      else a @ ''/'' @ b)"

text \<open>The check mark that opens the closing line, as the bytes of the source literal.\<close>

definition tick :: string where
  "tick = [CHR 0xC3, CHR 0xA2, CHR 0xC5, CHR 0x93, CHR 0xE2, CHR 0x80, CHR 0x9C]"

text \<open>
  The loop of \<open>analyze_all_images\<close>: \<open>n\<close> is \<open>len(mask_files)\<close>, \<open>i\<close> the index that
  \<open>enumerate\<close> gives, and the state is the result list with the lines printed so far.
\<close>

fun analyze_loop :: "(real \<Rightarrow> real) \<Rightarrow> filesystem \<Rightarrow> string \<Rightarrow> string \<Rightarrow> nat \<Rightarrow> nat \<Rightarrow> string list
    \<Rightarrow> image_record list \<times> string list \<Rightarrow> image_record list \<times> string list" where
  "analyze_loop rnd fs original_dir mask_dir n i [] acc = acc"
| "analyze_loop rnd fs original_dir mask_dir n i (mask_file # rest) (results, out) =
     (let out1 = (if (i + 1) mod 50 = 0
                  then out @ [''  Processed '' @ str_nat (i + 1) @ ''/'' @ str_nat n @ '' images...'']
                  else out);
          original_file = str_replace ''_CORROSAO_'' ''_PRINCIPAL_'' mask_file;
          original_path' = path_join original_dir original_file;
          mask_path' = path_join mask_dir mask_file
      in if \<not> path_exists fs original_path'
         then analyze_loop rnd fs original_dir mask_dir n (i + 1) rest
                (results, out1 @ [''  Warning: Original image not found for '' @ mask_file])
         else (case calculate_corroded_percentage rnd fs mask_path' of
                 (None, printed) \<Rightarrow>
                   analyze_loop rnd fs original_dir mask_dir n (i + 1) rest (results, out1 @ printed)
               | (Some p, printed) \<Rightarrow>
                   analyze_loop rnd fs original_dir mask_dir n (i + 1) rest
                     (results @ [\<lparr>original_path = original_path', mask_path = mask_path',
                                  percentage = p, filename = original_file, cls = None\<rparr>],
                      out1 @ printed)))"

definition mask_files_of :: "string list \<Rightarrow> string list" where
  "mask_files_of entries = sort (filter (\<lambda>f. endswith f ''.jpg'') entries)"

definition analyze_all_images :: "(real \<Rightarrow> real) \<Rightarrow> filesystem \<Rightarrow> string \<Rightarrow> string
    \<Rightarrow> image_record list \<times> string list" where
  "analyze_all_images rnd fs original_dir mask_dir =
     (let mask_files = mask_files_of (listdir fs mask_dir);
          out0 = [''Found '' @ str_nat (length mask_files) @ '' mask files'', ''Analyzing images...''];
          (results, out) = analyze_loop rnd fs original_dir mask_dir (length mask_files) 0 mask_files ([], out0)
      in (results, out @ [tick @ '' Successfully analyzed '' @ str_nat (length results) @ '' images'']))"

text \<open>
  For the statements about the batch: the name of the original image that belongs to a
  mask file, and the condition under which the loop appends a record for a mask file (the
  original exists and the mask opens).
\<close>

definition original_of :: "string \<Rightarrow> string" where
  "original_of mask_file = str_replace ''_CORROSAO_'' ''_PRINCIPAL_'' mask_file"

definition kept :: "filesystem \<Rightarrow> string \<Rightarrow> string \<Rightarrow> string \<Rightarrow> bool" where
  "kept fs original_dir mask_dir mask_file =
     (path_exists fs (path_join original_dir (original_of mask_file))
      \<and> isl (open_L fs (path_join mask_dir mask_file)) = False)"

text \<open>Scenario D of the specification: three mask files, one of them without its
  original image, and an entry of the directory that is not a mask.\<close>

definition scenario_d_fs :: filesystem where
  "scenario_d_fs =
     \<lparr>listdir = (\<lambda>d. if d = ''img/masks''
                       then [''m_CORROSAO_c.jpg'', ''notes.txt'', ''m_CORROSAO_a.jpg'', ''m_CORROSAO_b.jpg'']
                       else []),
      path_exists = (\<lambda>p. p \<in> set [''img/original/m_PRINCIPAL_a.jpg'', ''img/original/m_PRINCIPAL_c.jpg'']),
      open_L = (\<lambda>p. Inr [[255, 0], [0, 0]])\<rparr>"

section \<open>Threshold Selector\<close>

fun finsert :: "pyfloat \<Rightarrow> pyfloat list \<Rightarrow> pyfloat list" where
  "finsert x [] = [x]"
| "finsert x (y # ys) = (if flt y x then y # finsert x ys else x # y # ys)"

text \<open>Ascending order of a list of floats without NaN.\<close>

definition fsort :: "pyfloat list \<Rightarrow> pyfloat list" where
  "fsort xs = foldr finsert xs []"

text \<open>
  \<open>np.percentile(a, q)\<close> with numpy's default linear interpolation: the virtual index
  \<open>(n - 1) * q / 100\<close> into the sorted array, and the interpolation between its two
  neighbours, from the lower one for a weight below one half and from the upper one
  otherwise. A NaN in the array makes the result NaN; a percentile outside \<open>[0, 100]\<close>
  and an empty array raise. The function is numpy's and its operations are the exact
  ones.
\<close>

definition np_percentile :: "pyfloat list \<Rightarrow> real \<Rightarrow> py_error + pyfloat" where
  "np_percentile a q =
     (if q < 0 \<or> 100 < q then Inl ValueError
      else if a = [] then Inl IndexError
      else if NaN \<in> set a then Inr NaN
      else (let arr = fsort a;
                n = length arr;
                virtual_index = real (n - 1) * (q / 100);
                previous_index = nat \<lfloor>virtual_index\<rfloor>;
                next_index = min (previous_index + 1) (n - 1);
                gamma = virtual_index - real previous_index;
                lower = arr ! previous_index;
                upper = arr ! next_index
            in Inr (if gamma < 1 / 2
                    then fadd lower (fmul (fsub upper lower) (Fin gamma))
                    else fsub upper (fmul (fsub upper lower) (Fin (1 - gamma))))))"

text \<open>For the proofs: the interpolation of \<open>np_percentile\<close> on a sorted list of reals,
  at the virtual index \<open>v\<close>.\<close>

definition interp :: "real list \<Rightarrow> real \<Rightarrow> real" where
  "interp s v = s ! nat \<lfloor>v\<rfloor> + (s ! min (nat \<lfloor>v\<rfloor> + 1) (length s - 1) - s ! nat \<lfloor>v\<rfloor>) * (v - real (nat \<lfloor>v\<rfloor>))"

text \<open>
  \<open>determine_optimal_thresholds\<close>. The clustering is scikit-learn's: \<open>kmeans\<close> stands for
  \<open>KMeans(n_clusters=3, random_state=RANDOM_SEED, n_init=10).fit(X).cluster_centers_.flatten()\<close>,
  three centres in the library's order, or its exception. The two midpoints are the
  function's own arithmetic: each sum and each quotient is rounded to a double. A method
  name that matches no branch reaches the \<open>return\<close> with both variables unbound. The
  lines printed are not modelled.
\<close>

definition determine_optimal_thresholds ::
    "(real \<Rightarrow> real) \<Rightarrow> (pyfloat list \<Rightarrow> py_error + pyfloat \<times> pyfloat \<times> pyfloat) \<Rightarrow> pyfloat list
      \<Rightarrow> string \<Rightarrow> py_error + pyfloat \<times> pyfloat" where
  "determine_optimal_thresholds rnd kmeans percentages method =
     (if method = ''quantile'' then
        (case np_percentile percentages 33 of
           Inl e \<Rightarrow> Inl e
         | Inr threshold_low \<Rightarrow>
             (case np_percentile percentages 67 of
                Inl e \<Rightarrow> Inl e
              | Inr threshold_high \<Rightarrow> Inr (threshold_low, threshold_high)))
      else if method = ''domain'' then Inr (Fin 8, Fin 11)
      else if method = ''kmeans'' then
        (case kmeans percentages of
           Inl e \<Rightarrow> Inl e
         | Inr (c0, c1, c2) \<Rightarrow>
             (case fsort [c0, c1, c2] of
                [s0, s1, s2] \<Rightarrow>
                  Inr (fround rnd (fdiv (fround rnd (fadd s0 s1)) (Fin 2)),
                       fround rnd (fdiv (fround rnd (fadd s1 s2)) (Fin 2)))
              | _ \<Rightarrow> Inl IndexError))
      else Inl UnboundLocalError)"

section \<open>Stratified Partitioner\<close>

definition RANDOM_SEED :: int where
  "RANDOM_SEED = 42"

text \<open>
  \<open>train_test_split\<close> is scikit-learn's. Its two parts are kept apart, as the library has
  them: \<open>check_random_state\<close>, which turns the \<open>random_state\<close> argument into a generator
  (the process-wide numpy generator for \<open>None\<close>, a fresh generator seeded with the integer
  otherwise), and the shuffling split itself, which draws from that generator and returns
  the two index lists or raises. The generator type, the seeding and the split are
  parameters; \<open>'g\<close> is the state of a generator.
\<close>

record 'g sklearn =
  seed_rng :: "int \<Rightarrow> 'g"
  shuffle_split :: "'g \<Rightarrow> nat list \<Rightarrow> real \<Rightarrow> nat list \<Rightarrow> (py_error + nat list \<times> nat list) \<times> 'g"

text \<open>The global generator, which the module seeds once when it is loaded and every other
  use of \<open>np.random\<close> advances, goes in and comes out: only a call with
  \<open>random_state=None\<close> draws from it.\<close>

definition train_test_split :: "'g sklearn \<Rightarrow> 'g \<Rightarrow> nat list \<Rightarrow> real \<Rightarrow> nat list \<Rightarrow> int option
    \<Rightarrow> (py_error + nat list \<times> nat list) \<times> 'g" where
  "train_test_split sk global arrays test_size stratify random_state =
     (case random_state of
        None \<Rightarrow> shuffle_split sk global arrays test_size stratify
      | Some seed \<Rightarrow> (fst (shuffle_split sk (seed_rng sk seed) arrays test_size stratify), global))"

text \<open>\<open>[labels[i] for i in temp_idx]\<close>: an index past the end raises.\<close>

definition select_labels :: "nat list \<Rightarrow> nat list \<Rightarrow> py_error + nat list" where
  "select_labels labels idx =
     (if list_ex (\<lambda>i. length labels \<le> i) idx then Inl IndexError else Inr (map (nth labels) idx))"

text \<open>\<open>[r['class'] for r in results]\<close>: a record without the key raises.\<close>

definition labels_of :: "image_record list \<Rightarrow> py_error + nat list" where
  "labels_of results = (case those (map cls results) of None \<Rightarrow> Inl KeyError | Some labels \<Rightarrow> Inr labels)"

definition create_stratified_splits :: "'g sklearn \<Rightarrow> 'g \<Rightarrow> image_record list \<Rightarrow> real \<Rightarrow> real \<Rightarrow> real
    \<Rightarrow> (py_error + nat list \<times> nat list \<times> nat list) \<times> 'g" where
  "create_stratified_splits sk global results train_ratio val_ratio test_ratio =
     (if \<not> \<bar>train_ratio + val_ratio + test_ratio - 1\<bar> < 0.001 then (Inl AssertionError, global)
      else case labels_of results of
        Inl e \<Rightarrow> (Inl e, global)
      | Inr labels \<Rightarrow>
          (let indices = [0..<length results] in
           case train_test_split sk global indices (val_ratio + test_ratio) labels (Some RANDOM_SEED) of
             (Inl e, global1) \<Rightarrow> (Inl e, global1)
           | (Inr (train_idx, temp_idx), global1) \<Rightarrow>
               (case select_labels labels temp_idx of
                  Inl e \<Rightarrow> (Inl e, global1)
                | Inr temp_labels \<Rightarrow>
                    if val_ratio + test_ratio = 0 then (Inl ZeroDivisionError, global1)
                    else (let val_ratio_adjusted = val_ratio / (val_ratio + test_ratio) in
                          case train_test_split sk global1 temp_idx (1 - val_ratio_adjusted)
                                 temp_labels (Some RANDOM_SEED) of
                            (Inl e, global2) \<Rightarrow> (Inl e, global2)
                          | (Inr (val_idx, test_idx), global2) \<Rightarrow>
                              (Inr (train_idx, val_idx, test_idx), global2)))))"

text \<open>
  What the library promises of a split that returns: the two lists together are the input
  list, each element as often as it occurs there.
\<close>

definition splits_its_input :: "'g sklearn \<Rightarrow> bool" where
  "splits_its_input sk =
     (\<forall>g arrays test_size stratify a b.
        fst (shuffle_split sk g arrays test_size stratify) = Inr (a, b) \<longrightarrow> mset a + mset b = mset arrays)"

text \<open>
  A splitter to run the partitioner on: the test part is the last
  \<open>ceil(test_size * n)\<close> elements, as the library sizes it, without shuffling or
  stratification; the generator is a counter of the draws.
\<close>

definition plain_split :: "nat \<Rightarrow> nat list \<Rightarrow> real \<Rightarrow> nat list \<Rightarrow> (py_error + nat list \<times> nat list) \<times> nat" where
  "plain_split g arrays test_size stratify =
     (let n = length arrays; n_test = nat \<lceil>test_size * real n\<rceil>
      in if test_size \<le> 0 \<or> 1 \<le> test_size \<or> n \<le> n_test then (Inl ValueError, g)
         else (Inr (take (n - n_test) arrays, drop (n - n_test) arrays), g + 1))"

definition plain_sklearn :: "nat sklearn" where
  "plain_sklearn = \<lparr>seed_rng = nat, shuffle_split = plain_split\<rparr>"

text \<open>Records that have a class each and nothing else of interest, to run the partitioner
  and the reporter on.\<close>

definition labelled :: "nat list \<Rightarrow> image_record list" where
  "labelled cs = map (\<lambda>c. \<lparr>original_path = [], mask_path = [], percentage = Fin 0,
                            filename = [], cls = Some c\<rparr>) cs"

section \<open>Statistics Reporter\<close>

text \<open>The numpy reductions of the report. \<open>np.min\<close> and \<open>np.max\<close> raise on an empty
  sequence and propagate NaN; the others return NaN on an empty sequence.\<close>

definition np_min :: "pyfloat list \<Rightarrow> py_error + pyfloat" where
  "np_min xs =
     (case xs of
        [] \<Rightarrow> Inl ValueError
      | x # rest \<Rightarrow> if NaN \<in> set xs then Inr NaN
                    else Inr (foldl (\<lambda>m y. if flt y m then y else m) x rest))"

definition np_max :: "pyfloat list \<Rightarrow> py_error + pyfloat" where
  "np_max xs =
     (case xs of
        [] \<Rightarrow> Inl ValueError
      | x # rest \<Rightarrow> if NaN \<in> set xs then Inr NaN
                    else Inr (foldl (\<lambda>m y. if flt m y then y else m) x rest))"

definition np_mean :: "pyfloat list \<Rightarrow> pyfloat" where
  "np_mean xs = fdiv (fsum xs) (Fin (real (length xs)))"

definition np_median :: "pyfloat list \<Rightarrow> pyfloat" where
  "np_median xs =
     (if xs = [] \<or> NaN \<in> set xs then NaN
      else (let s = fsort xs; n = length s
            in if even n then fdiv (fadd (s ! (n div 2 - 1)) (s ! (n div 2))) (Fin 2)
               else s ! (n div 2)))"

fun fsqrt :: "pyfloat \<Rightarrow> pyfloat" where
  "fsqrt (Fin a) = (if a < 0 then NaN else Fin (sqrt a))"
| "fsqrt PInf = PInf"
| "fsqrt NInf = NaN"
| "fsqrt NaN = NaN"

definition np_std :: "pyfloat list \<Rightarrow> pyfloat" where
  "np_std xs =
     (let m = np_mean xs
      in fsqrt (np_mean (map (\<lambda>x. fmul (fsub x m) (fsub x m)) xs)))"

text \<open>Python's \<open>min(seq, default=0)\<close> and \<open>max(seq, default=0)\<close>: the default for an empty
  sequence, otherwise the first element that no later one is smaller (larger) than.\<close>

definition py_min_default :: "pyfloat list \<Rightarrow> pyfloat \<Rightarrow> pyfloat" where
  "py_min_default xs d = (case xs of [] \<Rightarrow> d | x # rest \<Rightarrow> foldl (\<lambda>m y. if flt y m then y else m) x rest)"

definition py_max_default :: "pyfloat list \<Rightarrow> pyfloat \<Rightarrow> pyfloat" where
  "py_max_default xs d = (case xs of [] \<Rightarrow> d | x # rest \<Rightarrow> foldl (\<lambda>m y. if flt m y then y else m) x rest)"

text \<open>\<open>dict(Counter(xs))\<close>: a key for each value that occurs, with its number of
  occurrences.\<close>

definition counter :: "nat list \<Rightarrow> (nat \<rightharpoonup> nat)" where
  "counter xs = (\<lambda>c. if c \<in> set xs then Some (count_list xs c) else None)"

record dataset_stats =
  total_images :: nat
  min_percentage :: pyfloat
  max_percentage :: pyfloat
  mean_percentage :: pyfloat
  median_percentage :: pyfloat
  std_percentage :: pyfloat

record class_stats =
  count :: nat
  class_percentage :: pyfloat
  min_corrosion :: pyfloat
  max_corrosion :: pyfloat

record split_stats =
  size :: nat
  split_percentage :: pyfloat
  class_distribution :: "nat \<rightharpoonup> nat"

text \<open>The report. The three range texts of the \<open>'thresholds'\<close> entry, which format the
  thresholds to one decimal, are left out.\<close>

record statistics_report =
  dataset :: dataset_stats
  threshold_low :: pyfloat
  threshold_high :: pyfloat
  class_0 :: class_stats
  class_1 :: class_stats
  class_2 :: class_stats
  train :: split_stats
  validation :: split_stats
  test :: split_stats
  random_seed :: int
  split_ratios :: "real list"

text \<open>One entry of \<open>'class_distribution'\<close>. The quotient is Python's, which raises on a
  zero divisor.\<close>

definition class_entry :: "image_record list \<Rightarrow> nat list \<Rightarrow> nat \<Rightarrow> py_error + class_stats" where
  "class_entry results labels c =
     (if length labels = 0 then Inl ZeroDivisionError
      else (let members = map percentage (filter (\<lambda>r. cls r = Some c) results)
            in Inr \<lparr>count = count_list labels c,
                    class_percentage = Fin (real (count_list labels c) / real (length labels) * 100),
                    min_corrosion = py_min_default members (Fin 0),
                    max_corrosion = py_max_default members (Fin 0)\<rparr>))"

text \<open>One entry of \<open>'splits'\<close>; \<open>results[i]['class']\<close> raises for an index past the end.\<close>

definition split_entry :: "image_record list \<Rightarrow> nat list \<Rightarrow> nat list \<Rightarrow> py_error + split_stats" where
  "split_entry results labels idx =
     (if length results = 0 then Inl ZeroDivisionError
      else case select_labels labels idx of
        Inl e \<Rightarrow> Inl e
      | Inr split_labels \<Rightarrow>
          Inr \<lparr>size = length idx,
               split_percentage = Fin (real (length idx) / real (length results) * 100),
               class_distribution = counter split_labels\<rparr>)"

definition generate_statistics_report :: "image_record list \<Rightarrow> nat list \<Rightarrow> nat list \<Rightarrow> nat list
    \<Rightarrow> pyfloat \<Rightarrow> pyfloat \<Rightarrow> py_error + statistics_report" where
  "generate_statistics_report results train_idx val_idx test_idx threshold_low' threshold_high' =
     (let percentages = map percentage results in
      case labels_of results of Inl e \<Rightarrow> Inl e | Inr labels \<Rightarrow>
      case np_min percentages of Inl e \<Rightarrow> Inl e | Inr mn \<Rightarrow>
      case np_max percentages of Inl e \<Rightarrow> Inl e | Inr mx \<Rightarrow>
      case class_entry results labels 0 of Inl e \<Rightarrow> Inl e | Inr c0 \<Rightarrow>
      case class_entry results labels 1 of Inl e \<Rightarrow> Inl e | Inr c1 \<Rightarrow>
      case class_entry results labels 2 of Inl e \<Rightarrow> Inl e | Inr c2 \<Rightarrow>
      case split_entry results labels train_idx of Inl e \<Rightarrow> Inl e | Inr tr \<Rightarrow>
      case split_entry results labels val_idx of Inl e \<Rightarrow> Inl e | Inr va \<Rightarrow>
      case split_entry results labels test_idx of Inl e \<Rightarrow> Inl e | Inr te \<Rightarrow>
        Inr \<lparr>dataset = \<lparr>total_images = length results,
                         min_percentage = mn,
                         max_percentage = mx,
                         mean_percentage = np_mean percentages,
                         median_percentage = np_median percentages,
                         std_percentage = np_std percentages\<rparr>,
             threshold_low = threshold_low',
             threshold_high = threshold_high',
             class_0 = c0, class_1 = c1, class_2 = c2,
             train = tr, validation = va, test = te,
             random_seed = RANDOM_SEED,
             split_ratios = [0.70, 0.15, 0.15]\<rparr>)"

section \<open>Saliency Engine\<close>

text \<open>
  A Keras layer as the engine sees it: its name, whether it is an instance of
  \<open>Conv2D\<close>, and its own \<open>layers\<close> attribute when the layer is itself a model.
\<close>

datatype layer = Layer (layer_name: string) (is_conv2d: bool) (sublayers: "layer list option")

text \<open>
  What the gradient model and the tape give for one image: the activation of the chosen
  layer (batch of one, \<open>height \<times> width \<times> channels\<close>) and the gradient of the class score
  with respect to it, of the same shape.
\<close>

record conv_output =
  height :: nat
  width :: nat
  channels :: nat
  act :: "nat \<Rightarrow> nat \<Rightarrow> nat \<Rightarrow> pyfloat"
  grad :: "nat \<Rightarrow> nat \<Rightarrow> nat \<Rightarrow> pyfloat"

text \<open>The trained classifier: its top-level layers, and the forward and gradient pass for
  a layer name, an image and a class index, which raises for a name the model does not
  have.\<close>

record 'img keras_model =
  layers :: "layer list"
  grad_model :: "string \<Rightarrow> 'img \<Rightarrow> nat option \<Rightarrow> py_error + conv_output"

record example =
  path :: string
  true_class :: nat
  pred_class :: nat
  confidence :: pyfloat

definition lower_char :: "char \<Rightarrow> char" where
  "lower_char c = (if CHR ''A'' \<le> c \<and> c \<le> CHR ''Z'' then char_of (of_char c + (32::nat)) else c)"

definition str_lower :: "string \<Rightarrow> string" where
  "str_lower s = map lower_char s"

text \<open>\<open>model.layers[0].layers\<close>.\<close>

definition base_layers :: "layer list \<Rightarrow> py_error + layer list" where
  "base_layers ls =
     (case ls of
        [] \<Rightarrow> Inl IndexError
      | l # _ \<Rightarrow> (case sublayers l of None \<Rightarrow> Inl AttributeError | Some sub \<Rightarrow> Inr sub))"

definition name_of_first :: "(layer \<Rightarrow> bool) \<Rightarrow> layer list \<Rightarrow> string option" where
  "name_of_first P ls = map_option layer_name (find P ls)"

definition get_last_conv_layer_name :: "layer list \<Rightarrow> string \<Rightarrow> py_error + string option" where
  "get_last_conv_layer_name model_layers model_name =
     (let fallback = name_of_first is_conv2d (rev model_layers) in
      if model_name = ''resnet50'' then
        (case base_layers model_layers of
           Inl e \<Rightarrow> Inl e
         | Inr sub \<Rightarrow>
             (case name_of_first (\<lambda>l. contains (str_lower (layer_name l)) ''conv'') (rev sub) of
                Some name \<Rightarrow> Inr (Some name)
              | None \<Rightarrow> Inr fallback))
      else if model_name = ''efficientnet'' then
        (case base_layers model_layers of
           Inl e \<Rightarrow> Inl e
         | Inr sub \<Rightarrow>
             (case name_of_first (\<lambda>l. contains (str_lower (layer_name l)) ''conv''
                                      \<or> contains (str_lower (layer_name l)) ''block'') (rev sub) of
                Some name \<Rightarrow> Inr (Some name)
              | None \<Rightarrow> Inr fallback))
      else Inr fallback)"

text \<open>\<open>tf.maximum\<close> and \<open>tf.math.reduce_max\<close>, which propagate NaN; the maximum of no
  element is minus infinity.\<close>

fun tf_maximum :: "pyfloat \<Rightarrow> pyfloat \<Rightarrow> pyfloat" where
  "tf_maximum NaN _ = NaN"
| "tf_maximum _ NaN = NaN"
| "tf_maximum a b = (if flt a b then b else a)"

definition reduce_max :: "pyfloat list \<Rightarrow> pyfloat" where
  "reduce_max xs = foldl tf_maximum NInf xs"

text \<open>\<open>tf.reduce_mean(grads, axis=(0, 1, 2))\<close>, channel \<open>k\<close>.\<close>

definition pooled_grads :: "conv_output \<Rightarrow> nat \<Rightarrow> pyfloat" where
  "pooled_grads co k =
     fdiv (fsum (concat (map (\<lambda>i. map (\<lambda>j. grad co i j k) [0..<width co]) [0..<height co])))
          (Fin (real (height co * width co)))"

text \<open>\<open>last_conv_layer_output @ pooled_grads[..., tf.newaxis]\<close> at position \<open>(i, j)\<close>.\<close>

definition weighted_sum :: "conv_output \<Rightarrow> nat \<Rightarrow> nat \<Rightarrow> pyfloat" where
  "weighted_sum co i j = fsum (map (\<lambda>k. fmul (act co i j k) (pooled_grads co k)) [0..<channels co])"

text \<open>
  The map after \<open>tf.squeeze\<close>, which drops every axis of length one: a scalar for a map
  of one row and one column, a vector for a single row or a single column, a matrix
  otherwise.
\<close>

datatype tensor = Scalar pyfloat | Vector "pyfloat list" | Matrix "pyfloat list list"

definition tf_squeeze :: "nat \<Rightarrow> nat \<Rightarrow> (nat \<Rightarrow> nat \<Rightarrow> pyfloat) \<Rightarrow> tensor" where
  "tf_squeeze h w f =
     (if h = 1 \<and> w = 1 then Scalar (f 0 0)
      else if h = 1 then Vector (map (f 0) [0..<w])
      else if w = 1 then Vector (map (\<lambda>i. f i 0) [0..<h])
      else Matrix (map (\<lambda>i. map (f i) [0..<w]) [0..<h]))"

fun elements :: "tensor \<Rightarrow> pyfloat list" where
  "elements (Scalar x) = [x]"
| "elements (Vector xs) = xs"
| "elements (Matrix rows) = concat rows"

fun map_tensor :: "(pyfloat \<Rightarrow> pyfloat) \<Rightarrow> tensor \<Rightarrow> tensor" where
  "map_tensor g (Scalar x) = Scalar (g x)"
| "map_tensor g (Vector xs) = Vector (map g xs)"
| "map_tensor g (Matrix rows) = Matrix (map (map g) rows)"

text \<open>The last line of \<open>make_gradcam_heatmap\<close>: the rectified map divided by the maximum
  of the map before rectification.\<close>

definition normalize_heatmap :: "tensor \<Rightarrow> tensor" where
  "normalize_heatmap heatmap =
     (let m = reduce_max (elements heatmap)
      in map_tensor (\<lambda>x. fdiv (tf_maximum x (Fin 0)) m) heatmap)"

definition heatmap_of :: "conv_output \<Rightarrow> tensor" where
  "heatmap_of co = normalize_heatmap (tf_squeeze (height co) (width co) (weighted_sum co))"

definition make_gradcam_heatmap :: "'img \<Rightarrow> 'img keras_model \<Rightarrow> string \<Rightarrow> nat option
    \<Rightarrow> py_error + tensor" where
  "make_gradcam_heatmap img_array model last_conv_layer_name pred_index =
     (case grad_model model last_conv_layer_name img_array pred_index of
        Inl e \<Rightarrow> Inl e
      | Inr co \<Rightarrow> Inr (heatmap_of co))"

text \<open>
  The calls into Pillow, numpy, Keras and matplotlib that the figure makes, each with the
  exception it may raise: \<open>load_image\<close> opens, converts and resizes the image of a path;
  \<open>uint8\<close> is numpy's cast of a float to an unsigned byte, whose value for NaN and for a
  float out of range is the platform's; \<open>superimpose\<close> is the rest of \<open>create_overlay\<close>
  after \<open>Image.fromarray\<close> (the resizing, the colour map, the conversions between arrays
  and images and the blend with weight \<open>alpha\<close>); \<open>savefig\<close> writes the figure.
\<close>

record ('img, 'pic) imaging =
  load_image :: "string \<Rightarrow> py_error + 'img"
  uint8 :: "pyfloat \<Rightarrow> 8 word"
  superimpose :: "'img \<Rightarrow> 8 word list list \<Rightarrow> real \<Rightarrow> py_error + 'pic"
  savefig :: "string \<Rightarrow> py_error option"

text \<open>
  \<open>create_overlay\<close>. \<open>Image.fromarray\<close> reads the two lengths of the shape: it raises
  for a scalar, and takes a vector as a column of pixels.
\<close>

definition create_overlay :: "('img, 'pic) imaging \<Rightarrow> 'img \<Rightarrow> tensor \<Rightarrow> real \<Rightarrow> py_error + 'pic" where
  "create_overlay lib img heatmap alpha =
     (case map_tensor (\<lambda>x. fmul (Fin 255) x) heatmap of
        Scalar x \<Rightarrow> Inl IndexError
      | Vector xs \<Rightarrow> superimpose lib img (map (\<lambda>x. [uint8 lib x]) xs) alpha
      | Matrix rows \<Rightarrow> superimpose lib img (map (map (uint8 lib)) rows) alpha)"

text \<open>\<open>imshow(heatmap, cmap='jet')\<close> draws a matrix and raises for any other shape.\<close>

fun imshow_heatmap :: "tensor \<Rightarrow> py_error option" where
  "imshow_heatmap (Matrix rows) = None"
| "imshow_heatmap _ = Some TypeError"

text \<open>
  The loop of \<open>generate_figure8\<close>, one row of the figure for each example: the image, the
  heatmap, the overlay, the label \<open>class_names[example['true_class']]\<close> of a list of three
  names, and the drawing of the heatmap. The image that is loaded serves both the gradient
  pass, scaled, and the overlay.
\<close>

fun figure_rows :: "('img, 'pic) imaging \<Rightarrow> 'img keras_model \<Rightarrow> string \<Rightarrow> example list
    \<Rightarrow> py_error + (tensor \<times> 'pic) list" where
  "figure_rows lib model last_conv_layer_name [] = Inr []"
| "figure_rows lib model last_conv_layer_name (ex # rest) =
     (case load_image lib (path ex) of
        Inl e \<Rightarrow> Inl e
      | Inr img_array \<Rightarrow>
          (case make_gradcam_heatmap img_array model last_conv_layer_name (Some (pred_class ex)) of
             Inl e \<Rightarrow> Inl e
           | Inr heatmap \<Rightarrow>
               (case create_overlay lib img_array heatmap 0.4 of
                  Inl e \<Rightarrow> Inl e
                | Inr overlay \<Rightarrow>
                    if 3 \<le> true_class ex then Inl IndexError
                    else (case imshow_heatmap heatmap of
                            Some e \<Rightarrow> Inl e
                          | None \<Rightarrow>
                              (case figure_rows lib model last_conv_layer_name rest of
                                 Inl e \<Rightarrow> Inl e
                               | Inr rows \<Rightarrow> Inr ((heatmap, overlay) # rows))))))"

definition check_mark :: string where
  "check_mark = [CHR 0xE2, CHR 0x9C, CHR 0x93]"

text \<open>\<open>generate_figure8\<close>: an exception, or the normal return with the rows of the
  figure saved (\<open>None\<close> when the function returns before drawing), and the lines
  printed. \<open>plt.subplots(n_examples, 3)\<close> raises for a figure of no rows.\<close>

definition generate_figure8 :: "('img, 'pic) imaging \<Rightarrow> 'img keras_model \<Rightarrow> string
    \<Rightarrow> example list \<Rightarrow> string \<Rightarrow> (py_error + (tensor \<times> 'pic) list option) \<times> string list" where
  "generate_figure8 lib model model_name examples output_path =
     (case get_last_conv_layer_name (layers model) model_name of
        Inl e \<Rightarrow> (Inl e, [])
      | Inr None \<Rightarrow> (Inr None, [''ERROR: Could not find last conv layer for '' @ model_name])
      | Inr (Some last_conv_layer_name) \<Rightarrow>
          (let out = [''Using layer: '' @ last_conv_layer_name] in
           if examples = [] then (Inl ValueError, out)
           else case figure_rows lib model last_conv_layer_name examples of
             Inl e \<Rightarrow> (Inl e, out)
           | Inr rows \<Rightarrow>
               (case savefig lib output_path of
                  Some e \<Rightarrow> (Inl e, out)
                | None \<Rightarrow> (Inr (Some rows), out @ [check_mark @ '' Figure saved: '' @ output_path]))))"

text \<open>
  Inputs to run the engine on. Two outputs of the gradient pass, of two rows and two
  columns: one whose gradient is zero everywhere (a saturated class score), one whose
  gradient is NaN. Two classifiers: one with a \<open>Conv2D\<close> layer among its top-level layers,
  and a transfer-learning model whose convolutions are inside its first layer. A library
  whose calls all return, with a cast that truncates and takes NaN and the infinities
  to 0.
\<close>

definition zero_gradient :: conv_output where
  "zero_gradient = \<lparr>height = 2, width = 2, channels = 1,
                     act = (\<lambda>i j k. Fin (real (2 * i + j + 1))), grad = (\<lambda>i j k. Fin 0)\<rparr>"

definition nan_gradient :: conv_output where
  "nan_gradient = \<lparr>height = 2, width = 2, channels = 1,
                    act = (\<lambda>i j k. Fin 1), grad = (\<lambda>i j k. NaN)\<rparr>"

definition flat_model :: "conv_output \<Rightarrow> unit keras_model" where
  "flat_model co =
     \<lparr>layers = [Layer ''conv2d'' True None, Layer ''flatten'' False None, Layer ''dense'' False None],
      grad_model = (\<lambda>name img pred_index. if name = ''conv2d'' then Inr co else Inl ValueError)\<rparr>"

definition wrapped_model :: "conv_output \<Rightarrow> unit keras_model" where
  "wrapped_model co =
     \<lparr>layers = [Layer ''resnet50'' False (Some [Layer ''conv1_conv'' True None,
                                                Layer ''conv5_block3_out'' False None]),
                Layer ''global_average_pooling2d'' False None, Layer ''dense'' False None],
      grad_model = (\<lambda>name img pred_index. if name = ''conv5_block3_out'' then Inr co else Inl ValueError)\<rparr>"

definition one_example :: "example list" where
  "one_example = [\<lparr>path = ''img/original/a.jpg'', true_class = 1, pred_class = 1, confidence = Fin 0.9\<rparr>]"

definition plain_imaging :: "(unit, unit) imaging" where
  "plain_imaging =
     \<lparr>load_image = (\<lambda>p. Inr ()),
      uint8 = (\<lambda>x. case x of Fin r \<Rightarrow> of_nat (nat \<lfloor>r\<rfloor>) | _ \<Rightarrow> 0),
      superimpose = (\<lambda>img pixels alpha. Inr ()),
      savefig = (\<lambda>p. None)\<rparr>"

section \<open>Properties of the Percentage Extractor\<close>

lemma sum_list_indicator:
  "sum_list (map (\<lambda>p. if P p then 1 else 0) xs) = length (filter P xs)"
  by (induction xs) simp_all

lemma rounded_count_positive:
  assumes "float_rounding rnd" and "0 < n"
  shows "1 \<le> rnd (real n)"
proof -
  have m: "mono rnd" and one: "rnd 1 = 1" using assms(1) by (simp_all add: float_rounding_def)
  have "1 \<le> real n" using assms(2) by simp
  then have "rnd 1 \<le> rnd (real n)" using m by (rule monoD [rotated])
  then show ?thesis using one by simp
qed

lemma percentage_value:
  assumes "open_L fs mpath = Inr m" and "concat m \<noteq> []" and "float_rounding rnd"
  shows "fst (calculate_corroded_percentage rnd fs mpath) =
         Some (Fin (rnd (rnd (rnd (real (length (filter (\<lambda>x. 127 < x) (concat m))))
                              / rnd (real (length (concat m)))) * 100)))"
proof -
  have "0 < length (concat m)" using assms(2) by simp
  then have "rnd (real (length (concat m))) \<noteq> 0"
    using rounded_count_positive [OF assms(3), of "length (concat m)"] by simp
  then show ?thesis using assms(1)
    by (simp add: calculate_corroded_percentage_def Let_def binary_mask_def sum_list_indicator
        del: length_concat concat_eq_Nil_conv of_nat_eq_0_iff length_0_conv)
qed

lemma fix64_rounding: "float_rounding fix64"
proof -
  have "mono fix64"
  proof (rule monoI)
    fix x y :: real
    assume "x \<le> y"
    then have "\<lfloor>x * 2 ^ 64 + 1 / 2\<rfloor> \<le> \<lfloor>y * 2 ^ 64 + 1 / 2\<rfloor>"
      by (intro floor_mono) simp
    then show "fix64 x \<le> fix64 y"
      unfolding fix64_def by (simp add: divide_right_mono)
  qed
  moreover have "fix64 0 = 0" "fix64 1 = 1" "fix64 100 = 100" "fix64 (2 ^ 64) = 2 ^ 64"
    "fix64 (1 / 2 ^ 64) = 1 / 2 ^ 64"
    by (simp_all add: fix64_def)
  ultimately show ?thesis by (simp add: float_rounding_def)
qed

text \<open>
  C6. For a mask file that opens and has at least one pixel, the extractor returns a
  finite percentage between 0 and 100: the number of pixels above the cutoff 127, divided
  by the number of pixels, times 100, as binary64 arithmetic computes it (the two counts
  converted, the quotient and the product rounded).
\<close>

theorem extractor_percentage_range:
  assumes "open_L fs mpath = Inr m" and "concat m \<noteq> []" and "float_rounding rnd"
  shows "\<exists>p. fst (calculate_corroded_percentage rnd fs mpath) = Some (Fin p) \<and> 0 \<le> p \<and> p \<le> 100
           \<and> p = rnd (rnd (rnd (real (length (filter (\<lambda>x. 127 < x) (concat m))))
                            / rnd (real (length (concat m)))) * 100)"
proof -
  let ?c = "rnd (real (length (filter (\<lambda>x. 127 < x) (concat m))))"
  let ?n = "rnd (real (length (concat m)))"
  have r: "mono rnd" "rnd 0 = 0" "rnd 1 = 1" "rnd 100 = 100"
    using assms(3) by (simp_all add: float_rounding_def)
  have "0 < length (concat m)" using assms(2) by simp
  then have n: "0 < ?n" using rounded_count_positive [OF assms(3), of "length (concat m)"] by simp
  have "real (length (filter (\<lambda>x. 127 < x) (concat m))) \<le> real (length (concat m))"
    using length_filter_le [of "\<lambda>x. 127 < x" "concat m"] by (simp del: length_concat)
  then have cn: "?c \<le> ?n" using r(1) by (rule monoD [rotated])
  have "rnd 0 \<le> ?c" using r(1) by (rule monoD) simp
  then have c0: "0 \<le> ?c" using r(2) by simp
  have q1: "?c / ?n \<le> 1" using cn n by simp
  have q0: "0 \<le> ?c / ?n" using c0 n by simp
  have "rnd 0 \<le> rnd (?c / ?n)" using r(1) q0 by (rule monoD)
  then have a0: "0 \<le> rnd (?c / ?n)" using r(2) by simp
  have "rnd (?c / ?n) \<le> rnd 1" using r(1) q1 by (rule monoD)
  then have a1: "rnd (?c / ?n) \<le> 1" using r(3) by simp
  have b0: "0 \<le> rnd (?c / ?n) * 100" using a0 by simp
  have "rnd (?c / ?n) * 100 \<le> 1 * 100" using a1 by (rule mult_right_mono) simp
  then have b1: "rnd (?c / ?n) * 100 \<le> 100" by simp
  have "rnd 0 \<le> rnd (rnd (?c / ?n) * 100)" using r(1) b0 by (rule monoD)
  then have c0: "0 \<le> rnd (rnd (?c / ?n) * 100)" using r(2) by simp
  have "rnd (rnd (?c / ?n) * 100) \<le> rnd 100" using r(1) b1 by (rule monoD)
  then have c1: "rnd (rnd (?c / ?n) * 100) \<le> 100" using r(4) by simp
  show ?thesis using percentage_value [OF assms] c0 c1 by blast
qed

theorem extractor_percentage_range_witness:
  "\<exists>p. fst (calculate_corroded_percentage fix64
            \<lparr>listdir = (\<lambda>_. []), path_exists = (\<lambda>_. True),
             open_L = (\<lambda>_. Inr [[0, 200, 255], [255, 127, 0]])\<rparr> ''m.jpg'')
         = Some (Fin p) \<and> 0 \<le> p \<and> p \<le> 100 \<and> p = fix64 (fix64 (fix64 3 / fix64 6) * 100)"
  using extractor_percentage_range [of "\<lparr>listdir = (\<lambda>_. []), path_exists = (\<lambda>_. True),
      open_L = (\<lambda>_. Inr [[0, 200, 255], [255, 127, 0]])\<rparr>" "''m.jpg''" "[[0, 200, 255], [255, 127, 0]]"
      fix64, OF _ _ fix64_rounding]
  by simp



section \<open>Properties of the Labeler\<close>

text \<open>
  C3. For every percentage and every pair of finite thresholds the class is 0 below
  \<open>low\<close>, 1 from \<open>low\<close> up to but excluding \<open>high\<close>, and 2 otherwise; with
  \<open>low < high\<close>, the percentage \<open>low\<close> gets class 1 and the percentage \<open>high\<close> class 2.
  \<open>classify_images\<close> writes that class into every record.
\<close>

theorem labeler_half_open:
  "classify p (Fin low) (Fin high) =
     (if flt p (Fin low) then 0 else if fle (Fin low) p \<and> flt p (Fin high) then 1 else 2)
   \<and> (low < high \<longrightarrow> classify (Fin low) (Fin low) (Fin high) = 1
                    \<and> classify (Fin high) (Fin low) (Fin high) = 2)
   \<and> map cls (classify_images results (Fin low) (Fin high))
       = map (\<lambda>r. Some (classify (percentage r) (Fin low) (Fin high))) results"
  by (cases p) (auto simp: classify_def fle_def classify_images_def)

theorem labeler_half_open_witness:
  "(8::real) < 11 \<and> classify (Fin 8) (Fin 8) (Fin 11) = 1 \<and> classify (Fin 11) (Fin 8) (Fin 11) = 2
   \<and> classify (Fin 7.99) (Fin 8) (Fin 11) = 0 \<and> classify NaN (Fin 8) (Fin 11) = 2"
  using labeler_half_open [of "Fin 7.99" 8 11 "[]"] labeler_half_open [of NaN 8 11 "[]"]
  by (simp add: fle_def)

section \<open>Properties of the batch analysis\<close>

lemma calc_cases:
  "fst (calculate_corroded_percentage rnd fs p) = None \<longleftrightarrow> isl (open_L fs p)"
  by (simp add: calculate_corroded_percentage_def Let_def split: sum.splits)

lemma analyze_loop_records:
  "map mask_path (fst (analyze_loop rnd fs od md n i files (rs, out)))
     = map mask_path rs @ map (path_join md) (filter (kept fs od md) files)"
proof (induction files arbitrary: i rs out)
  case Nil
  show ?case by simp
next
  case (Cons f files)
  show ?case
  proof (cases "path_exists fs (path_join od (original_of f))")
    case False
    then show ?thesis
      using Cons.IH by (simp add: Let_def kept_def original_of_def)
  next
    case True
    obtain r printed where c: "calculate_corroded_percentage rnd fs (path_join md f) = (r, printed)"
      by (cases "calculate_corroded_percentage rnd fs (path_join md f)")
    have r: "r = None \<longleftrightarrow> isl (open_L fs (path_join md f))"
      using calc_cases [of rnd fs "path_join md f"] c by simp
    show ?thesis
    proof (cases r)
      case None
      then show ?thesis using True c r Cons.IH
        by (simp add: Let_def kept_def original_of_def)
    next
      case (Some p)
      then show ?thesis using True c r Cons.IH
        by (simp add: Let_def kept_def original_of_def)
    qed
  qed
qed

lemma analyze_loop_out:
  "\<exists>extra. snd (analyze_loop rnd fs od md n i files (rs, out)) = out @ extra
     \<and> (\<forall>f \<in> set files. \<not> path_exists fs (path_join od (original_of f))
           \<longrightarrow> (''  Warning: Original image not found for '' @ f) \<in> set extra)"
proof (induction files arbitrary: i rs out)
  case Nil
  show ?case by simp
next
  case (Cons f files)
  let ?out1 = "(if (i + 1) mod 50 = 0
                  then out @ [''  Processed '' @ str_nat (i + 1) @ ''/'' @ str_nat n @ '' images...'']
                  else out)"
  obtain e1 where e1: "?out1 = out @ e1" by (cases "(i + 1) mod 50 = 0") auto
  show ?case
  proof (cases "path_exists fs (path_join od (original_of f))")
    case False
    obtain extra where ex: "snd (analyze_loop rnd fs od md n (i + 1) files
          (rs, ?out1 @ [''  Warning: Original image not found for '' @ f]))
        = (?out1 @ [''  Warning: Original image not found for '' @ f]) @ extra
      \<and> (\<forall>f \<in> set files. \<not> path_exists fs (path_join od (original_of f))
           \<longrightarrow> (''  Warning: Original image not found for '' @ f) \<in> set extra)"
      using Cons.IH by blast
    have "snd (analyze_loop rnd fs od md n i (f # files) (rs, out))
        = out @ (e1 @ [''  Warning: Original image not found for '' @ f] @ extra)"
      using False ex e1 by (simp add: Let_def original_of_def)
    moreover have "\<forall>g \<in> set (f # files). \<not> path_exists fs (path_join od (original_of g))
           \<longrightarrow> (''  Warning: Original image not found for '' @ g)
                 \<in> set (e1 @ [''  Warning: Original image not found for '' @ f] @ extra)"
      using ex by auto
    ultimately show ?thesis by blast
  next
    case True
    obtain r printed where c: "calculate_corroded_percentage rnd fs (path_join md f) = (r, printed)"
      by (cases "calculate_corroded_percentage rnd fs (path_join md f)")
    let ?rs' = "case r of None \<Rightarrow> rs | Some p \<Rightarrow> rs @ [\<lparr>original_path = path_join od (original_of f),
         mask_path = path_join md f, percentage = p, filename = original_of f, cls = None\<rparr>]"
    have step: "analyze_loop rnd fs od md n i (f # files) (rs, out)
        = analyze_loop rnd fs od md n (i + 1) files (?rs', ?out1 @ printed)"
      using True c by (cases r) (simp_all add: Let_def original_of_def)
    obtain extra where ex: "snd (analyze_loop rnd fs od md n (i + 1) files (?rs', ?out1 @ printed))
        = (?out1 @ printed) @ extra
      \<and> (\<forall>f \<in> set files. \<not> path_exists fs (path_join od (original_of f))
           \<longrightarrow> (''  Warning: Original image not found for '' @ f) \<in> set extra)"
      using Cons.IH by blast
    have "snd (analyze_loop rnd fs od md n i (f # files) (rs, out)) = out @ (e1 @ printed @ extra)"
      using step ex e1 by simp
    moreover have "\<forall>g \<in> set (f # files). \<not> path_exists fs (path_join od (original_of g))
           \<longrightarrow> (''  Warning: Original image not found for '' @ g) \<in> set (e1 @ printed @ extra)"
      using ex True by auto
    ultimately show ?thesis by blast
  qed
qed


text \<open>
  C7 (as amended). A mask whose original image is missing, or whose file does not open, is
  skipped and the batch goes on: the result holds one record for every other mask file, in
  order, and none for the skipped ones. The function keeps no exclusion counter. Its output
  opens with the number of mask files found and closes with the number of records, so every
  skipped mask lowers the closing number by one; a mask without original has a warning
  line of its own.
\<close>

theorem excluded_masks_leave_no_record:
  "(let mask_files = mask_files_of (listdir fs md);
        results = fst (analyze_all_images rnd fs od md);
        out = snd (analyze_all_images rnd fs od md)
    in map mask_path results = map (path_join md) (filter (kept fs od md) mask_files)
     \<and> length results + length (filter (\<lambda>f. \<not> kept fs od md f) mask_files) = length mask_files
     \<and> hd out = ''Found '' @ str_nat (length mask_files) @ '' mask files''
     \<and> last out = tick @ '' Successfully analyzed '' @ str_nat (length results) @ '' images''
     \<and> (\<forall>f \<in> set mask_files. \<not> path_exists fs (path_join od (original_of f))
           \<longrightarrow> (''  Warning: Original image not found for '' @ f) \<in> set out))"
proof -
  let ?mf = "mask_files_of (listdir fs md)"
  let ?out0 = "[''Found '' @ str_nat (length ?mf) @ '' mask files'', ''Analyzing images...'']"
  let ?loop = "analyze_loop rnd fs od md (length ?mf) 0 ?mf ([], ?out0)"
  have res: "fst (analyze_all_images rnd fs od md) = fst ?loop"
    by (simp add: analyze_all_images_def Let_def split: prod.splits)
  have out: "snd (analyze_all_images rnd fs od md)
      = snd ?loop @ [tick @ '' Successfully analyzed '' @ str_nat (length (fst ?loop)) @ '' images'']"
    by (simp add: analyze_all_images_def Let_def split: prod.splits)
  have 1: "map mask_path (fst ?loop) = map (path_join md) (filter (kept fs od md) ?mf)"
    using analyze_loop_records [of rnd fs od md "length ?mf" 0 ?mf "[]" ?out0] by simp
  have "length (map mask_path (fst ?loop)) = length (filter (kept fs od md) ?mf)"
    unfolding 1 by simp
  then have len: "length (fst ?loop) = length (filter (kept fs od md) ?mf)" by simp
  have 2: "length (fst ?loop) + length (filter (\<lambda>f. \<not> kept fs od md f) ?mf) = length ?mf"
    unfolding len by (rule sum_length_filter_compl)
  obtain extra where ex: "snd ?loop = ?out0 @ extra"
    and warn: "\<forall>f \<in> set ?mf. \<not> path_exists fs (path_join od (original_of f))
           \<longrightarrow> (''  Warning: Original image not found for '' @ f) \<in> set extra"
    using analyze_loop_out [of rnd fs od md "length ?mf" 0 ?mf "[]" ?out0] by blast
  have 3: "hd (snd (analyze_all_images rnd fs od md)) = ''Found '' @ str_nat (length ?mf) @ '' mask files''"
    unfolding out ex by simp
  have 4: "last (snd (analyze_all_images rnd fs od md))
      = tick @ '' Successfully analyzed '' @ str_nat (length (fst (analyze_all_images rnd fs od md))) @ '' images''"
    unfolding res out by simp
  have 5: "\<forall>f \<in> set ?mf. \<not> path_exists fs (path_join od (original_of f))
           \<longrightarrow> (''  Warning: Original image not found for '' @ f) \<in> set (snd (analyze_all_images rnd fs od md))"
    unfolding out ex using warn by simp
  show ?thesis
    unfolding Let_def using 1 2 3 4 5 res by simp
qed

theorem excluded_masks_leave_no_record_witness:
  "map mask_path (fst (analyze_all_images fix64 scenario_d_fs ''img/original'' ''img/masks''))
     = [''img/masks/m_CORROSAO_a.jpg'', ''img/masks/m_CORROSAO_c.jpg'']
   \<and> length (fst (analyze_all_images fix64 scenario_d_fs ''img/original'' ''img/masks'')) + 1 = 3
   \<and> last (snd (analyze_all_images fix64 scenario_d_fs ''img/original'' ''img/masks''))
       = tick @ '' Successfully analyzed 2 images''
   \<and> ''  Warning: Original image not found for m_CORROSAO_b.jpg''
       \<in> set (snd (analyze_all_images fix64 scenario_d_fs ''img/original'' ''img/masks''))"
proof -
  have mf: "mask_files_of (listdir scenario_d_fs ''img/masks'')
      = [''m_CORROSAO_a.jpg'', ''m_CORROSAO_b.jpg'', ''m_CORROSAO_c.jpg'']"
    by code_simp
  have k: "filter (kept scenario_d_fs ''img/original'' ''img/masks'')
        [''m_CORROSAO_a.jpg'', ''m_CORROSAO_b.jpg'', ''m_CORROSAO_c.jpg'']
      = [''m_CORROSAO_a.jpg'', ''m_CORROSAO_c.jpg'']"
    by code_simp
  have nk: "filter (\<lambda>f. \<not> kept scenario_d_fs ''img/original'' ''img/masks'' f)
        [''m_CORROSAO_a.jpg'', ''m_CORROSAO_b.jpg'', ''m_CORROSAO_c.jpg'']
      = [''m_CORROSAO_b.jpg'']"
    by code_simp
  have pj: "map (path_join ''img/masks'') [''m_CORROSAO_a.jpg'', ''m_CORROSAO_c.jpg'']
      = [''img/masks/m_CORROSAO_a.jpg'', ''img/masks/m_CORROSAO_c.jpg'']"
    by code_simp
  have ne: "\<not> path_exists scenario_d_fs (path_join ''img/original'' (original_of ''m_CORROSAO_b.jpg''))"
    by code_simp
  have two: "str_nat 2 = ''2''" by code_simp
  have l: "length (fst (analyze_all_images fix64 scenario_d_fs ''img/original'' ''img/masks'')) = 2"
    using excluded_masks_leave_no_record [of scenario_d_fs "''img/masks''" fix64 "''img/original''"]
    unfolding Let_def mf nk by simp
  show ?thesis
    using excluded_masks_leave_no_record [of scenario_d_fs "''img/masks''" fix64 "''img/original''"] ne
    unfolding Let_def mf k nk pj l two by simp
qed

text \<open>
  C7 as stated fails in Scenario D: one mask is excluded, and the number 1 is in no line
  of the output.
\<close>

theorem exclusion_count_not_printed:
  "length (filter (\<lambda>f. \<not> kept scenario_d_fs ''img/original'' ''img/masks'' f)
            (mask_files_of (listdir scenario_d_fs ''img/masks''))) = 1
   \<and> snd (analyze_all_images fix64 scenario_d_fs ''img/original'' ''img/masks'')
       = [''Found 3 mask files'', ''Analyzing images...'',
          ''  Warning: Original image not found for m_CORROSAO_b.jpg'',
          tick @ '' Successfully analyzed 2 images'']
   \<and> \<not> list_ex (\<lambda>line. contains line (str_nat 1))
          (snd (analyze_all_images fix64 scenario_d_fs ''img/original'' ''img/masks''))"
  by code_simp

section \<open>Properties of the Stratified Partitioner\<close>

lemma tts_seeded:
  "train_test_split sk g arrays ts strat (Some seed)
     = (fst (shuffle_split sk (seed_rng sk seed) arrays ts strat), g)"
  by (simp add: train_test_split_def)

lemma tts_seeded_contract:
  assumes "splits_its_input sk"
    and "train_test_split sk g arrays ts strat (Some seed) = (Inr (a, b), g')"
  shows "mset a + mset b = mset arrays"
  using assms unfolding splits_its_input_def tts_seeded by (metis Pair_inject)

lemma plain_ok: "splits_its_input plain_sklearn"
  unfolding splits_its_input_def plain_sklearn_def plain_split_def
  by (auto simp: Let_def simp flip: mset_append)

text \<open>
  C1. With a splitter that returns its input split in two, as scikit-learn's does, every
  partition that \<open>create_stratified_splits\<close> returns is an exact cover: no index occurs
  twice in the three lists together, the three are pairwise disjoint, and their union is
  \<open>{0, ..., N - 1}\<close>.
\<close>

theorem partition_exact_cover:
  assumes "splits_its_input sk"
    and "fst (create_stratified_splits sk g results tr va te) = Inr (train_idx, val_idx, test_idx)"
  shows "distinct (train_idx @ val_idx @ test_idx)
       \<and> set train_idx \<union> set val_idx \<union> set test_idx = {0..<length results}
       \<and> set train_idx \<inter> set val_idx = {} \<and> set train_idx \<inter> set test_idx = {}
       \<and> set val_idx \<inter> set test_idx = {}"
proof -
  from assms(2) obtain labels temp_idx temp_labels g1 g2 where
    s1: "train_test_split sk g [0..<length results] (va + te) labels (Some RANDOM_SEED)
           = (Inr (train_idx, temp_idx), g1)"
    and s2: "train_test_split sk g1 temp_idx (1 - va / (va + te)) temp_labels (Some RANDOM_SEED)
           = (Inr (val_idx, test_idx), g2)"
    by (auto simp: create_stratified_splits_def Let_def split: if_splits sum.splits prod.splits)
  have m1: "mset train_idx + mset temp_idx = mset [0..<length results]"
    using tts_seeded_contract [OF assms(1) s1] .
  have m2: "mset val_idx + mset test_idx = mset temp_idx"
    using tts_seeded_contract [OF assms(1) s2] .
  have m: "mset (train_idx @ val_idx @ test_idx) = mset [0..<length results]"
    using m1 m2 by (simp add: ac_simps)
  have d: "distinct (train_idx @ val_idx @ test_idx)"
    using mset_eq_imp_distinct_iff [OF m] by simp
  have s: "set (train_idx @ val_idx @ test_idx) = set [0..<length results]"
    using mset_eq_setD [OF m] .
  from d s show ?thesis by auto
qed

theorem partition_exact_cover_witness:
  "fst (create_stratified_splits plain_sklearn 5 (labelled [0, 1, 2, 0, 1, 2, 0, 1, 2, 0]) 0.70 0.15 0.15)
     = Inr ([0, 1, 2, 3, 4, 5, 6], [7], [8, 9])
   \<and> distinct ([0, 1, 2, 3, 4, 5, 6] @ [7] @ [8, 9 :: nat])
   \<and> set [0, 1, 2, 3, 4, 5, 6] \<union> set [7] \<union> set [8, 9]
       = {0..<length (labelled [0, 1, 2, 0, 1, 2, 0, 1, 2, 0])}"
proof -
  have ev: "fst (create_stratified_splits plain_sklearn 5 (labelled [0, 1, 2, 0, 1, 2, 0, 1, 2, 0]) 0.70 0.15 0.15)
     = Inr ([0, 1, 2, 3, 4, 5, 6], [7], [8, 9])"
    by code_simp
  show ?thesis
    using partition_exact_cover [OF plain_ok ev] ev by simp
qed

text \<open>
  C2. The partition is a function of the records and the ratios alone: both splits are
  seeded with the constant \<open>RANDOM_SEED\<close>, so two runs return the same three lists
  whatever the state of the process-wide generator is, and leave that state as it was.
\<close>

theorem partition_deterministic:
  "fst (create_stratified_splits sk g1 results tr va te)
     = fst (create_stratified_splits sk g2 results tr va te)
   \<and> snd (create_stratified_splits sk g1 results tr va te) = g1"
  by (simp add: create_stratified_splits_def tts_seeded Let_def split: sum.splits prod.splits)

theorem partition_deterministic_witness:
  "fst (create_stratified_splits plain_sklearn 0 (labelled [0, 1, 2, 0, 1, 2, 0, 1, 2, 0]) 0.70 0.15 0.15)
     = fst (create_stratified_splits plain_sklearn 99 (labelled [0, 1, 2, 0, 1, 2, 0, 1, 2, 0]) 0.70 0.15 0.15)
   \<and> create_stratified_splits plain_sklearn 0 (labelled [0, 1, 2, 0, 1, 2, 0, 1, 2, 0]) 0.70 0.15 0.15
     = (Inr ([0, 1, 2, 3, 4, 5, 6], [7], [8, 9]), 0)"
proof -
  have ev: "create_stratified_splits plain_sklearn 0 (labelled [0, 1, 2, 0, 1, 2, 0, 1, 2, 0]) 0.70 0.15 0.15
     = (Inr ([0, 1, 2, 3, 4, 5, 6], [7], [8, 9]), 0)"
    by code_simp
  show ?thesis
    using partition_deterministic [of plain_sklearn 0 "labelled [0, 1, 2, 0, 1, 2, 0, 1, 2, 0]" "0.70" "0.15" "0.15" 99] ev
    by simp
qed

section \<open>Properties of the Threshold Selector\<close>

lemma finsert_Fin: "finsert (Fin x) (map Fin ys) = map Fin (insort x ys)"
  by (induction ys) (auto)

lemma fsort_Fin: "fsort (map Fin xs) = map Fin (sort xs)"
  unfolding fsort_def sort_key_def by (induction xs) (simp_all add: finsert_Fin)

lemma sort3:
  "\<exists>s0 s1 s2. sort [a, b, c :: real] = [s0, s1, s2] \<and> s0 \<le> s1 \<and> s1 \<le> s2"
  by simp

lemma kmeans_mid:
  assumes "kmeans ps = Inr (Fin a, Fin b, Fin c)" and "float_rounding rnd"
  shows "\<exists>s0 s1 s2. sort [a, b, c] = [s0, s1, s2]
           \<and> determine_optimal_thresholds rnd kmeans ps ''kmeans''
               = Inr (Fin (rnd (rnd (s0 + s1) / 2)), Fin (rnd (rnd (s1 + s2) / 2)))
           \<and> rnd (rnd (s0 + s1) / 2) \<le> rnd (rnd (s1 + s2) / 2)"
proof -
  obtain s0 s1 s2 where s: "sort [a, b, c] = [s0, s1, s2]" and o: "s0 \<le> s1" "s1 \<le> s2"
    using sort3 [of a b c] by blast
  have m: "mono rnd" using assms(2) by (simp add: float_rounding_def)
  have "fsort [Fin a, Fin b, Fin c] = map Fin (sort [a, b, c])"
    using fsort_Fin [of "[a, b, c]"] by simp
  then have f: "fsort [Fin a, Fin b, Fin c] = [Fin s0, Fin s1, Fin s2]"
    unfolding s by simp
  have v: "determine_optimal_thresholds rnd kmeans ps ''kmeans''
      = Inr (Fin (rnd (rnd (s0 + s1) / 2)), Fin (rnd (rnd (s1 + s2) / 2)))"
    using assms(1) f by (simp add: determine_optimal_thresholds_def)
  have "s0 + s1 \<le> s1 + s2" using o by simp
  then have "rnd (s0 + s1) \<le> rnd (s1 + s2)" using m by (rule monoD [rotated])
  then have "rnd (s0 + s1) / 2 \<le> rnd (s1 + s2) / 2" by simp
  then have "rnd (rnd (s0 + s1) / 2) \<le> rnd (rnd (s1 + s2) / 2)" using m by (rule monoD [rotated])
  with s v show ?thesis by blast
qed

lemma np_percentile_Fin:
  assumes "xs \<noteq> []" "0 \<le> q" "q \<le> 100"
  shows "np_percentile (map Fin xs) q = Inr (Fin (interp (sort xs) (real (length xs - 1) * (q / 100))))"
proof -
  let ?s = "sort xs"
  let ?v = "real (length xs - 1) * (q / 100)"
  let ?j = "nat \<lfloor>?v\<rfloor>"
  let ?k = "min (?j + 1) (length xs - 1)"
  have v0: "0 \<le> ?v" using assms(2) by simp
  have "?v \<le> real (length xs - 1) * 1"
    using assms(3) by (intro mult_left_mono) auto
  then have v1: "?v \<le> real (length xs - 1)" by simp
  have "real ?j \<le> ?v" using v0 by linarith
  then have jle: "?j \<le> length xs - 1" using v1 by linarith
  have n: "0 < length xs" using assms(1) by simp
  define j where "j = ?j"
  have "j \<le> length xs - 1" using jle unfolding j_def .
  then have "j < length xs" and "min (j + 1) (length xs - 1) < length xs" using n by linarith+
  then have j: "?j < length ?s" and k: "?k < length ?s" unfolding j_def by simp_all
  have nj: "map Fin ?s ! ?j = Fin (?s ! ?j)" using j by (rule nth_map)
  have nk: "map Fin ?s ! ?k = Fin (?s ! ?k)" using k by (rule nth_map)
  have nonan: "NaN \<notin> set (map Fin xs)" by auto
  have "np_percentile (map Fin xs) q
      = Inr (if ?v - real ?j < 1 / 2
             then fadd (map Fin ?s ! ?j) (fmul (fsub (map Fin ?s ! ?k) (map Fin ?s ! ?j)) (Fin (?v - real ?j)))
             else fsub (map Fin ?s ! ?k)
                    (fmul (fsub (map Fin ?s ! ?k) (map Fin ?s ! ?j)) (Fin (1 - (?v - real ?j)))))"
    using assms nonan unfolding np_percentile_def fsort_Fin Let_def by simp
  also have "\<dots> = Inr (Fin (interp ?s ?v))"
    unfolding nj nk by (simp add: interp_def fsub_def algebra_simps)
  finally show ?thesis .
qed

lemma interp_bounds:
  assumes "sorted s" "0 \<le> v" "v \<le> real (length s - 1)" "s \<noteq> []"
  shows "s ! nat \<lfloor>v\<rfloor> \<le> interp s v \<and> interp s v \<le> s ! min (nat \<lfloor>v\<rfloor> + 1) (length s - 1)"
proof -
  let ?j = "nat \<lfloor>v\<rfloor>" let ?k = "min (?j + 1) (length s - 1)"
  let ?g = "v - real ?j"
  have jv: "real ?j \<le> v" "v < real ?j + 1" using assms(2) by linarith+
  have g: "0 \<le> ?g" "?g \<le> 1" using jv by linarith+
  have "?j \<le> length s - 1" using jv assms(3) by linarith
  then have jk: "?j \<le> ?k" "?k < length s" using assms(4) by (auto simp: min_def Suc_le_eq)
  have le: "s ! ?j \<le> s ! ?k" using assms(1) jk by (simp add: sorted_nth_mono)
  have 1: "0 \<le> (s ! ?k - s ! ?j) * ?g" using le g by simp
  have "(s ! ?k - s ! ?j) * ?g \<le> (s ! ?k - s ! ?j) * 1"
    using le g by (intro mult_left_mono) auto
  then have 2: "(s ! ?k - s ! ?j) * ?g \<le> s ! ?k - s ! ?j" by simp
  show ?thesis unfolding interp_def using 1 2 by linarith
qed

lemma interp_mono:
  assumes "sorted s" "s \<noteq> []" "0 \<le> v" "v \<le> w" "w \<le> real (length s - 1)"
  shows "interp s v \<le> interp s w"
proof -
  let ?j = "nat \<lfloor>v\<rfloor>" let ?i = "nat \<lfloor>w\<rfloor>"
  have ji: "?j \<le> ?i" using assms(3,4) by (simp add: floor_mono nat_mono)
  have iw: "real ?i \<le> w" using assms(3,4) by linarith
  then have il: "?i \<le> length s - 1" using assms(5) by linarith
  show ?thesis
  proof (cases "?j = ?i")
    case True
    let ?k = "min (?j + 1) (length s - 1)"
    have jk: "?j \<le> ?k" "?k < length s" using il True assms(2) by (auto simp: min_def Suc_le_eq)
    have le: "0 \<le> s ! ?k - s ! ?j" using assms(1) jk by (simp add: sorted_nth_mono)
    have "(s ! ?k - s ! ?j) * (v - real ?j) \<le> (s ! ?k - s ! ?j) * (w - real ?j)"
      using le assms(4) by (intro mult_left_mono) auto
    then show ?thesis unfolding interp_def True [symmetric] by simp
  next
    case False
    then have lt: "?j + 1 \<le> ?i" using ji by linarith
    have "interp s v \<le> s ! min (?j + 1) (length s - 1)"
      using interp_bounds [OF assms(1) assms(3) _ assms(2)] assms(4,5) by simp
    also have "\<dots> \<le> s ! ?i"
      using assms(1,2) lt il by (intro sorted_nth_mono) (auto simp: min_def)
    also have "\<dots> \<le> interp s w"
      using interp_bounds [OF assms(1) _ assms(5) assms(2)] assms(3,4) by simp
    finally show ?thesis .
  qed
qed

lemma quantile_ordered:
  assumes "xs \<noteq> []"
  shows "\<exists>lo hi. determine_optimal_thresholds rnd kmeans (map Fin xs) ''quantile'' = Inr (Fin lo, Fin hi) \<and> lo \<le> hi"
proof -
  let ?s = "sort xs" let ?n = "real (length xs - 1)"
  have ne: "?s \<noteq> []" using assms by (metis length_0_conv length_sort)
  have "?n * (67 / 100) \<le> ?n * 1" by (intro mult_left_mono) auto
  then have up: "?n * (67 / 100) \<le> real (length ?s - 1)" by simp
  have "interp ?s (?n * (33 / 100)) \<le> interp ?s (?n * (67 / 100))"
    using ne up by (intro interp_mono) (auto simp: mult_left_mono)
  moreover have "determine_optimal_thresholds rnd kmeans (map Fin xs) ''quantile''
     = Inr (Fin (interp ?s (?n * (33 / 100))), Fin (interp ?s (?n * (67 / 100))))"
    using assms by (simp add: determine_optimal_thresholds_def np_percentile_Fin)
  ultimately show ?thesis by blast
qed


text \<open>
  C4 (as amended). The Domain strategy returns the pair (8, 11), so \<open>low < high\<close>, for
  every input. For every non-empty collection of finite percentages the Quantile strategy
  returns finite thresholds with \<open>low \<le> high\<close>. For three finite centres the KMeans
  strategy returns the midpoints of the sorted centres, each sum and each half rounded to
  a double, with \<open>low \<le> high\<close>. No strategy inspects the number of distinct values or
  compares the thresholds.
\<close>

theorem thresholds_ordered:
  "determine_optimal_thresholds rnd kmeans ps ''domain'' = Inr (Fin 8, Fin 11)
   \<and> (xs \<noteq> [] \<longrightarrow>
        (\<exists>lo hi. determine_optimal_thresholds rnd kmeans (map Fin xs) ''quantile'' = Inr (Fin lo, Fin hi)
                  \<and> lo \<le> hi))
   \<and> (kmeans ps = Inr (Fin a, Fin b, Fin c) \<and> float_rounding rnd \<longrightarrow>
        (\<exists>s0 s1 s2. sort [a, b, c] = [s0, s1, s2]
           \<and> determine_optimal_thresholds rnd kmeans ps ''kmeans''
               = Inr (Fin (rnd (rnd (s0 + s1) / 2)), Fin (rnd (rnd (s1 + s2) / 2)))
           \<and> rnd (rnd (s0 + s1) / 2) \<le> rnd (rnd (s1 + s2) / 2)))"
proof -
  have "determine_optimal_thresholds rnd kmeans ps ''domain'' = Inr (Fin 8, Fin 11)"
    by (simp add: determine_optimal_thresholds_def)
  then show ?thesis
    using quantile_ordered [of xs rnd kmeans] kmeans_mid [of kmeans ps a b c rnd] by blast
qed

theorem thresholds_ordered_witness:
  "determine_optimal_thresholds fix64 (\<lambda>_. Inr (Fin 25, Fin 5, Fin 15)) [] ''domain'' = Inr (Fin 8, Fin 11)
   \<and> determine_optimal_thresholds fix64 (\<lambda>_. Inr (Fin 25, Fin 5, Fin 15))
        (map Fin [3, 1, 3, 1, 2, 1, 3, 1, 3]) ''quantile'' = Inr (Fin 1, Fin 3)
   \<and> sort [25, 5, 15 :: real] = [5, 15, 25]
   \<and> determine_optimal_thresholds fix64 (\<lambda>_. Inr (Fin 25, Fin 5, Fin 15)) [] ''kmeans'' = Inr (Fin 10, Fin 20)"
proof -
  have q: "determine_optimal_thresholds fix64 (\<lambda>_. Inr (Fin 25, Fin 5, Fin 15))
        (map Fin [3, 1, 3, 1, 2, 1, 3, 1, 3]) ''quantile'' = Inr (Fin 1, Fin 3)"
    by code_simp
  have k: "determine_optimal_thresholds fix64 (\<lambda>_. Inr (Fin 25, Fin 5, Fin 15)) [] ''kmeans'' = Inr (Fin 10, Fin 20)"
    by code_simp
  have s: "sort [25, 5, 15 :: real] = [5, 15, 25]"
    by simp
  show ?thesis
    using thresholds_ordered [of fix64 "\<lambda>_. Inr (Fin 25, Fin 5, Fin 15)" "[]"
        "[3, 1, 3, 1, 2, 1, 3, 1, 3]" 25 5 15] fix64_rounding q k s
    by simp
qed

text \<open>
  C4 as stated fails: nine percentages with three distinct values have equal 33rd and 67th
  percentiles, and a collection with a single distinct value is answered with thresholds,
  not with an error.
\<close>

theorem quantile_thresholds_can_coincide:
  "card (set [3, 1, 2, 1, 1, 1, 1, 1, 1 :: real]) = 3
   \<and> determine_optimal_thresholds fix64 (\<lambda>_. Inl ValueError) (map Fin [3, 1, 2, 1, 1, 1, 1, 1, 1]) ''quantile''
       = Inr (Fin 1, Fin 1)
   \<and> \<not> flt (Fin 1) (Fin 1)
   \<and> determine_optimal_thresholds fix64 (\<lambda>_. Inl ValueError) (map Fin [5, 5]) ''quantile'' = Inr (Fin 5, Fin 5)
   \<and> determine_optimal_thresholds fix64 (\<lambda>_. Inl ValueError) (map Fin [5, 5]) ''domain'' = Inr (Fin 8, Fin 11)"
  by code_simp

section \<open>Properties of the Statistics Reporter\<close>

lemma those_map_Some: "those xs = Some ys \<Longrightarrow> xs = map Some ys"
  by (induction xs arbitrary: ys) (auto split: option.splits)

lemma labels_of_Inr:
  assumes "labels_of results = Inr labels"
  shows "map cls results = map Some labels"
  using assms those_map_Some [of "map cls results" labels]
  by (simp add: labels_of_def split: option.splits)

lemma labels_length:
  assumes "labels_of results = Inr labels"
  shows "length labels = length results"
  using labels_of_Inr [OF assms] by (metis length_map)

lemma no_members:
  assumes "labels_of results = Inr labels" and "c \<notin> set labels"
  shows "filter (\<lambda>r. cls r = Some c) results = []"
proof -
  have "Some c \<notin> set (map cls results)" unfolding labels_of_Inr [OF assms(1)] using assms(2) by auto
  then have "\<forall>r \<in> set results. cls r \<noteq> Some c" by (metis image_eqI set_map)
  then show ?thesis by (simp add: filter_empty_conv)
qed

lemma class_entry_ok:
  assumes "labels_of results = Inr labels" and "results \<noteq> []"
  shows "\<exists>e. class_entry results labels c = Inr e \<and> count e = count_list labels c
           \<and> (c \<notin> set labels \<longrightarrow>
                e = \<lparr>count = 0, class_percentage = Fin 0, min_corrosion = Fin 0, max_corrosion = Fin 0\<rparr>)"
  using assms(2) labels_length [OF assms(1)] no_members [OF assms(1), of c]
  by (simp add: class_entry_def Let_def py_min_default_def py_max_default_def)

lemma select_labels_ok:
  assumes "\<forall>i \<in> set idx. i < length labels"
  shows "select_labels labels idx = Inr (map (nth labels) idx)"
  using assms by (auto simp: select_labels_def list_ex_iff)

lemma split_entry_ok:
  assumes "labels_of results = Inr labels" and "results \<noteq> []"
    and "\<forall>i \<in> set idx. i < length results"
  shows "\<exists>e. split_entry results labels idx = Inr e \<and> size e = length idx
           \<and> class_distribution e = counter (map (nth labels) idx)"
  using assms(2,3) select_labels_ok [of idx labels] labels_length [OF assms(1)]
  by (simp add: split_entry_def)

lemma np_min_ok: "xs \<noteq> [] \<Longrightarrow> \<exists>m. np_min xs = Inr m"
  by (cases xs) (simp_all add: np_min_def)

lemma np_max_ok: "xs \<noteq> [] \<Longrightarrow> \<exists>m. np_max xs = Inr m"
  by (cases xs) (simp_all add: np_max_def)


text \<open>
  C8 (as amended). For every non-empty collection of labelled records and every partition
  whose indices are within it, the reporter returns a report, also when a class has no
  member in a split or none at all. For a class without any member it reports count 0,
  percentage 0 and the default 0 of the minimum and the maximum corrosion. For a class
  without member in a split, the class distribution of that split has no entry for the
  class.
\<close>

theorem report_with_empty_class:
  assumes "labels_of results = Inr labels" and "results \<noteq> []"
    and "\<forall>i \<in> set (train_idx @ val_idx @ test_idx). i < length results"
  shows "\<exists>r. generate_statistics_report results train_idx val_idx test_idx tl' th' = Inr r
     \<and> (0 \<notin> set labels \<longrightarrow>
          class_0 r = \<lparr>count = 0, class_percentage = Fin 0, min_corrosion = Fin 0, max_corrosion = Fin 0\<rparr>)
     \<and> (1 \<notin> set labels \<longrightarrow>
          class_1 r = \<lparr>count = 0, class_percentage = Fin 0, min_corrosion = Fin 0, max_corrosion = Fin 0\<rparr>)
     \<and> (2 \<notin> set labels \<longrightarrow>
          class_2 r = \<lparr>count = 0, class_percentage = Fin 0, min_corrosion = Fin 0, max_corrosion = Fin 0\<rparr>)
     \<and> class_distribution (train r) = counter (map (nth labels) train_idx)
     \<and> class_distribution (validation r) = counter (map (nth labels) val_idx)
     \<and> class_distribution (test r) = counter (map (nth labels) test_idx)
     \<and> (\<forall>c. c \<notin> set (map (nth labels) train_idx) \<longrightarrow> class_distribution (train r) c = None)
     \<and> (\<forall>c. c \<notin> set (map (nth labels) val_idx) \<longrightarrow> class_distribution (validation r) c = None)
     \<and> (\<forall>c. c \<notin> set (map (nth labels) test_idx) \<longrightarrow> class_distribution (test r) c = None)"
proof -
  have pne: "map percentage results \<noteq> []" using assms(2) by simp
  obtain mn where mn: "np_min (map percentage results) = Inr mn" using np_min_ok [OF pne] by blast
  obtain mx where mx: "np_max (map percentage results) = Inr mx" using np_max_ok [OF pne] by blast
  obtain c0 where c0: "class_entry results labels 0 = Inr c0"
    "0 \<notin> set labels \<longrightarrow> c0 = \<lparr>count = 0, class_percentage = Fin 0, min_corrosion = Fin 0, max_corrosion = Fin 0\<rparr>"
    using class_entry_ok [OF assms(1,2), of 0] by blast
  obtain c1 where c1: "class_entry results labels 1 = Inr c1"
    "1 \<notin> set labels \<longrightarrow> c1 = \<lparr>count = 0, class_percentage = Fin 0, min_corrosion = Fin 0, max_corrosion = Fin 0\<rparr>"
    using class_entry_ok [OF assms(1,2), of 1] by blast
  obtain c2 where c2: "class_entry results labels 2 = Inr c2"
    "2 \<notin> set labels \<longrightarrow> c2 = \<lparr>count = 0, class_percentage = Fin 0, min_corrosion = Fin 0, max_corrosion = Fin 0\<rparr>"
    using class_entry_ok [OF assms(1,2), of 2] by blast
  obtain tr where tr: "split_entry results labels train_idx = Inr tr"
    "class_distribution tr = counter (map (nth labels) train_idx)"
    using split_entry_ok [OF assms(1,2), of train_idx] assms(3) by auto
  obtain va where va: "split_entry results labels val_idx = Inr va"
    "class_distribution va = counter (map (nth labels) val_idx)"
    using split_entry_ok [OF assms(1,2), of val_idx] assms(3) by auto
  obtain te where te: "split_entry results labels test_idx = Inr te"
    "class_distribution te = counter (map (nth labels) test_idx)"
    using split_entry_ok [OF assms(1,2), of test_idx] assms(3) by auto
  let ?r = "\<lparr>dataset = \<lparr>total_images = length results, min_percentage = mn, max_percentage = mx,
                 mean_percentage = np_mean (map percentage results),
                 median_percentage = np_median (map percentage results),
                 std_percentage = np_std (map percentage results)\<rparr>,
             threshold_low = tl', threshold_high = th',
             class_0 = c0, class_1 = c1, class_2 = c2,
             train = tr, validation = va, test = te,
             random_seed = RANDOM_SEED, split_ratios = [0.70, 0.15, 0.15]\<rparr>"
  have "generate_statistics_report results train_idx val_idx test_idx tl' th' = Inr ?r"
    unfolding generate_statistics_report_def Let_def
    by (simp add: assms(1) mn mx c0(1) c1(1) c2(1) tr(1) va(1) te(1) del: One_nat_def)
  moreover have "\<forall>c. c \<notin> set (map (nth labels) train_idx) \<longrightarrow> class_distribution tr c = None"
    unfolding tr(2) counter_def by simp
  moreover have "\<forall>c. c \<notin> set (map (nth labels) val_idx) \<longrightarrow> class_distribution va c = None"
    unfolding va(2) counter_def by simp
  moreover have "\<forall>c. c \<notin> set (map (nth labels) test_idx) \<longrightarrow> class_distribution te c = None"
    unfolding te(2) counter_def by simp
  ultimately show ?thesis using c0(2) c1(2) c2(2) tr(2) va(2) te(2) by simp
qed

theorem report_with_empty_class_witness:
  "\<not> isl (generate_statistics_report (labelled [0, 1]) [0] [1] [] (Fin 8) (Fin 11))
   \<and> class_2 (projr (generate_statistics_report (labelled [0, 1]) [0] [1] [] (Fin 8) (Fin 11)))
       = \<lparr>count = 0, class_percentage = Fin 0, min_corrosion = Fin 0, max_corrosion = Fin 0\<rparr>
   \<and> class_distribution (validation (projr (generate_statistics_report (labelled [0, 1]) [0] [1] [] (Fin 8) (Fin 11)))) 1
       = Some 1
   \<and> class_distribution (test (projr (generate_statistics_report (labelled [0, 1]) [0] [1] [] (Fin 8) (Fin 11)))) 0
       = None"
proof -
  have lab: "labels_of (labelled [0, 1]) = Inr [0, 1]"
    by (simp add: labels_of_def labelled_def)
  have ne: "labelled [0, 1] \<noteq> []"
    by (simp add: labelled_def)
  have idx: "\<forall>i \<in> set ([0] @ [1] @ []). i < length (labelled [0, 1])"
    by (simp add: labelled_def)
  show ?thesis
    using report_with_empty_class [OF lab ne idx, of "Fin 8" "Fin 11"]
    by (auto simp: counter_def)
qed


text \<open>
  C8 as stated fails twice: on the empty collection, where every class is without members,
  the minimum over the percentages raises; and a class that is absent from a split is
  absent from the split's distribution, not reported with 0.
\<close>

theorem absent_class_has_no_entry:
  "generate_statistics_report [] [] [] [] (Fin 8) (Fin 11) = Inl ValueError
   \<and> \<not> isl (generate_statistics_report (labelled [0, 1]) [0] [1] [] (Fin 8) (Fin 11))
   \<and> class_distribution (train (projr (generate_statistics_report (labelled [0, 1]) [0] [1] [] (Fin 8) (Fin 11)))) 1
       = None
   \<and> class_distribution (train (projr (generate_statistics_report (labelled [0, 1]) [0] [1] [] (Fin 8) (Fin 11)))) 1
       \<noteq> Some 0"
  by (simp add: generate_statistics_report_def labelled_def labels_of_def np_min_def np_max_def
      class_entry_def split_entry_def select_labels_def counter_def Let_def)

section \<open>Properties of the Saliency Engine\<close>

lemma foldl_max_ge: "a \<le> foldl max a rs \<and> (\<forall>x \<in> set rs. x \<le> foldl max (a::real) rs)"
proof (induction rs arbitrary: a)
  case Nil
  show ?case by simp
next
  case (Cons r rs)
  have "max a r \<le> foldl max (max a r) rs" and "\<forall>x \<in> set rs. x \<le> foldl max (max a r) rs"
    using Cons.IH [of "max a r"] by auto
  then show ?case by auto
qed

lemma foldl_tf_maximum_Fin: "foldl tf_maximum (Fin a) (map Fin rs) = Fin (foldl max a rs)"
  by (induction rs arbitrary: a) (auto simp: max_def)

lemma reduce_max_Fin:
  assumes "reduce_max (map Fin rs) = Fin m"
  shows "\<forall>x \<in> set rs. x \<le> m"
proof (cases rs)
  case Nil
  then show ?thesis by simp
next
  case (Cons r rest)
  have "reduce_max (map Fin rs) = Fin (foldl max r rest)"
    unfolding reduce_max_def Cons by (simp add: foldl_tf_maximum_Fin)
  then have "m = foldl max r rest" using assms by simp
  then show ?thesis using foldl_max_ge [of r rest] Cons by auto
qed

lemma normalized_value_range:
  assumes "reduce_max (map Fin rs) = Fin m" and "0 < m" and "x \<in> set rs"
  shows "\<exists>v. fdiv (tf_maximum (Fin x) (Fin 0)) (Fin m) = Fin v \<and> 0 \<le> v \<and> v \<le> 1"
proof -
  have "x \<le> m" using reduce_max_Fin [OF assms(1)] assms(3) by blast
  then show ?thesis using assms(2) by (auto simp: max_def divide_le_eq_1)
qed

lemma elements_map_tensor: "elements (map_tensor g t) = map g (elements t)"
  by (cases t) (simp_all add: map_concat)

lemma normalized_heatmap_range:
  assumes "elements raw = map Fin rs" and "reduce_max (elements raw) = Fin m" and "0 < m"
  shows "\<forall>y \<in> set (elements (normalize_heatmap raw)). \<exists>v. y = Fin v \<and> 0 \<le> v \<and> v \<le> 1"
proof
  fix y
  assume "y \<in> set (elements (normalize_heatmap raw))"
  then obtain x where x: "x \<in> set (elements raw)"
    and y: "y = fdiv (tf_maximum x (Fin 0)) (Fin m)"
    by (auto simp: normalize_heatmap_def assms(2) elements_map_tensor)
  from x obtain r where r: "x = Fin r" "r \<in> set rs" unfolding assms(1) by auto
  show "\<exists>v. y = Fin v \<and> 0 \<le> v \<and> v \<le> 1"
    unfolding y r(1)
    using normalized_value_range [OF assms(2) [unfolded assms(1)] assms(3) r(2)] .
qed

text \<open>
  C5. With a positive maximum every value of the heatmap is in \<open>[0, 1]\<close>
  (\<open>normalized_heatmap_range\<close>). With a maximum of zero the division is \<open>0/0\<close>: for a
  gradient that is zero everywhere the weighted sum is zero at every position and every
  value of the heatmap is NaN, neither in \<open>[0, 1]\<close> nor zero.
\<close>

theorem zero_maximum_heatmap_is_nan:
  "reduce_max (elements (tf_squeeze (height zero_gradient) (width zero_gradient)
                           (weighted_sum zero_gradient))) = Fin 0
   \<and> make_gradcam_heatmap () (flat_model zero_gradient) ''conv2d'' (Some 1)
       = Inr (Matrix [[NaN, NaN], [NaN, NaN]])"
  by code_simp

lemma name_of_first_rev: "name_of_first P (rev ls) = None \<longleftrightarrow> \<not> list_ex P ls"
  by (auto simp: name_of_first_def find_None_iff list_ex_iff)

lemma no_layer_in_base:
  assumes "get_last_conv_layer_name ls model_name
      = (case base_layers ls of
           Inl e \<Rightarrow> Inl e
         | Inr sub \<Rightarrow>
             (case name_of_first P (rev sub) of
                Some name \<Rightarrow> Inr (Some name)
              | None \<Rightarrow> Inr (name_of_first is_conv2d (rev ls))))"
  shows "get_last_conv_layer_name ls model_name = Inr None \<longleftrightarrow>
     \<not> list_ex is_conv2d ls \<and> (\<exists>sub. base_layers ls = Inr sub \<and> \<not> list_ex P sub)"
proof (cases "base_layers ls")
  case (Inl e)
  then show ?thesis unfolding assms by simp
next
  case (Inr sub)
  show ?thesis
  proof (cases "name_of_first P (rev sub)")
    case None
    then show ?thesis
      unfolding assms using Inr name_of_first_rev [of P sub] name_of_first_rev [of is_conv2d ls]
      by simp
  next
    case (Some n)
    then have "list_ex P sub" using name_of_first_rev [of P sub] by simp
    then show ?thesis unfolding assms using Inr Some by simp
  qed
qed

lemma no_layer_iff:
  "get_last_conv_layer_name ls model_name = Inr None \<longleftrightarrow>
     \<not> list_ex is_conv2d ls
     \<and> (model_name = ''resnet50'' \<longrightarrow>
          (\<exists>sub. base_layers ls = Inr sub
             \<and> \<not> list_ex (\<lambda>l. contains (str_lower (layer_name l)) ''conv'') sub))
     \<and> (model_name = ''efficientnet'' \<longrightarrow>
          (\<exists>sub. base_layers ls = Inr sub
             \<and> \<not> list_ex (\<lambda>l. contains (str_lower (layer_name l)) ''conv''
                                \<or> contains (str_lower (layer_name l)) ''block'') sub))"
proof (cases "model_name = ''resnet50''")
  case True
  have "get_last_conv_layer_name ls model_name
      = (case base_layers ls of
           Inl e \<Rightarrow> Inl e
         | Inr sub \<Rightarrow>
             (case name_of_first (\<lambda>l. contains (str_lower (layer_name l)) ''conv'') (rev sub) of
                Some name \<Rightarrow> Inr (Some name)
              | None \<Rightarrow> Inr (name_of_first is_conv2d (rev ls))))"
    using True by (simp add: get_last_conv_layer_name_def Let_def)
  from no_layer_in_base [OF this] show ?thesis using True by simp
next
  case False
  show ?thesis
  proof (cases "model_name = ''efficientnet''")
    case True
    have "get_last_conv_layer_name ls model_name
        = (case base_layers ls of
             Inl e \<Rightarrow> Inl e
           | Inr sub \<Rightarrow>
               (case name_of_first (\<lambda>l. contains (str_lower (layer_name l)) ''conv''
                                        \<or> contains (str_lower (layer_name l)) ''block'') (rev sub) of
                  Some name \<Rightarrow> Inr (Some name)
                | None \<Rightarrow> Inr (name_of_first is_conv2d (rev ls))))"
      using True by (simp add: get_last_conv_layer_name_def Let_def)
    from no_layer_in_base [OF this] show ?thesis using True by simp
  next
    case other: False
    have "get_last_conv_layer_name ls model_name = Inr (name_of_first is_conv2d (rev ls))"
      using False other by (simp add: get_last_conv_layer_name_def Let_def)
    then show ?thesis using False other name_of_first_rev [of is_conv2d ls] by simp
  qed
qed

lemma figure_rows_ok:
  assumes "\<forall>ex \<in> set examples. true_class ex < 3
             \<and> (\<exists>img co. load_image lib (path ex) = Inr img
                  \<and> grad_model model lname img (Some (pred_class ex)) = Inr co
                  \<and> 2 \<le> height co \<and> 2 \<le> width co)"
    and "\<forall>img pixels alpha. \<not> isl (superimpose lib img pixels alpha)"
  shows "\<exists>rows. figure_rows lib model lname examples = Inr rows \<and> length rows = length examples"
  using assms(1)
proof (induction examples)
  case Nil
  show ?case by simp
next
  case (Cons ex rest)
  obtain img co where l: "load_image lib (path ex) = Inr img"
    and g: "grad_model model lname img (Some (pred_class ex)) = Inr co"
    and d: "2 \<le> height co" "2 \<le> width co" and t: "true_class ex < 3"
    using Cons.prems by auto
  obtain rows where r: "figure_rows lib model lname rest = Inr rows" "length rows = length rest"
    using Cons.IH Cons.prems by auto
  obtain m where m: "heatmap_of co = Matrix m"
    using d by (simp add: heatmap_of_def normalize_heatmap_def tf_squeeze_def Let_def)
  obtain pic where p: "create_overlay lib img (Matrix m) 0.4 = Inr pic"
    using assms(2) by (simp add: create_overlay_def) (metis sum.collapse(2))
  have "figure_rows lib model lname (ex # rest) = Inr ((Matrix m, pic) # rows)"
    using l g r(1) m p t by (simp add: make_gradcam_heatmap_def)
  then show ?case using r(2) by simp
qed

text \<open>
  C9 (as amended). \<open>get_last_conv_layer_name\<close> returns \<open>None\<close> exactly when no top-level
  layer is a \<open>Conv2D\<close> and, for the model names \<open>resnet50\<close> and \<open>efficientnet\<close>, the first
  layer has layers of its own of which none has \<open>conv\<close> (for \<open>efficientnet\<close>: or \<open>block\<close>)
  in its name; for these two names a model without layers or whose first layer has none of
  its own raises instead. On \<open>None\<close>, \<open>generate_figure8\<close> prints one error line and returns
  normally, without a figure. When a layer is found and there is an example, the figure
  is made whenever every image loads, every gradient pass returns a map of at least two
  rows and two columns, every true class is 0, 1 or 2 and the library calls of the
  overlay and of saving return, whatever the values of the gradient are: no value is
  checked for finiteness.
\<close>

theorem missing_layer_is_reported_not_raised:
  "(get_last_conv_layer_name (layers model) model_name = Inr None \<longleftrightarrow>
      \<not> list_ex is_conv2d (layers model)
      \<and> (model_name = ''resnet50'' \<longrightarrow>
           (\<exists>sub. base_layers (layers model) = Inr sub
              \<and> \<not> list_ex (\<lambda>l. contains (str_lower (layer_name l)) ''conv'') sub))
      \<and> (model_name = ''efficientnet'' \<longrightarrow>
           (\<exists>sub. base_layers (layers model) = Inr sub
              \<and> \<not> list_ex (\<lambda>l. contains (str_lower (layer_name l)) ''conv''
                                 \<or> contains (str_lower (layer_name l)) ''block'') sub)))
   \<and> ((model_name = ''resnet50'' \<or> model_name = ''efficientnet'')
        \<and> base_layers (layers model) = Inl e \<longrightarrow>
      generate_figure8 lib model model_name examples output_path = (Inl e, []))
   \<and> (get_last_conv_layer_name (layers model) model_name = Inr None \<longrightarrow>
      generate_figure8 lib model model_name examples output_path
        = (Inr None, [''ERROR: Could not find last conv layer for '' @ model_name]))
   \<and> (get_last_conv_layer_name (layers model) model_name = Inr (Some lname)
        \<and> examples \<noteq> []
        \<and> (\<forall>ex \<in> set examples. true_class ex < 3
              \<and> (\<exists>img co. load_image lib (path ex) = Inr img
                   \<and> grad_model model lname img (Some (pred_class ex)) = Inr co
                   \<and> 2 \<le> height co \<and> 2 \<le> width co))
        \<and> (\<forall>img pixels alpha. \<not> isl (superimpose lib img pixels alpha))
        \<and> savefig lib output_path = None \<longrightarrow>
      (\<exists>rows. fst (generate_figure8 lib model model_name examples output_path) = Inr (Some rows)
         \<and> length rows = length examples))"
proof -
  have 0: "(model_name = ''resnet50'' \<or> model_name = ''efficientnet'')
        \<and> base_layers (layers model) = Inl e \<longrightarrow>
      generate_figure8 lib model model_name examples output_path = (Inl e, [])"
    by (auto simp: generate_figure8_def get_last_conv_layer_name_def Let_def)
  have 1: "get_last_conv_layer_name (layers model) model_name = Inr None \<longrightarrow>
      generate_figure8 lib model model_name examples output_path
        = (Inr None, [''ERROR: Could not find last conv layer for '' @ model_name])"
    by (simp add: generate_figure8_def)
  have 2: "get_last_conv_layer_name (layers model) model_name = Inr (Some lname)
        \<and> examples \<noteq> []
        \<and> (\<forall>ex \<in> set examples. true_class ex < 3
              \<and> (\<exists>img co. load_image lib (path ex) = Inr img
                   \<and> grad_model model lname img (Some (pred_class ex)) = Inr co
                   \<and> 2 \<le> height co \<and> 2 \<le> width co))
        \<and> (\<forall>img pixels alpha. \<not> isl (superimpose lib img pixels alpha))
        \<and> savefig lib output_path = None \<longrightarrow>
      (\<exists>rows. fst (generate_figure8 lib model model_name examples output_path) = Inr (Some rows)
         \<and> length rows = length examples)"
  proof
    assume a: "get_last_conv_layer_name (layers model) model_name = Inr (Some lname)
        \<and> examples \<noteq> []
        \<and> (\<forall>ex \<in> set examples. true_class ex < 3
              \<and> (\<exists>img co. load_image lib (path ex) = Inr img
                   \<and> grad_model model lname img (Some (pred_class ex)) = Inr co
                   \<and> 2 \<le> height co \<and> 2 \<le> width co))
        \<and> (\<forall>img pixels alpha. \<not> isl (superimpose lib img pixels alpha))
        \<and> savefig lib output_path = None"
    then obtain rows where r: "figure_rows lib model lname examples = Inr rows"
      "length rows = length examples"
      using figure_rows_ok [of examples lib model lname] by blast
    have "fst (generate_figure8 lib model model_name examples output_path) = Inr (Some rows)"
      using a r(1) by (simp add: generate_figure8_def Let_def)
    then show "\<exists>rows. fst (generate_figure8 lib model model_name examples output_path) = Inr (Some rows)
         \<and> length rows = length examples"
      using r(2) by blast
  qed
  from 0 1 2 no_layer_iff [of "layers model" model_name] show ?thesis by blast
qed

theorem missing_layer_is_reported_not_raised_witness:
  "get_last_conv_layer_name (layers (wrapped_model zero_gradient)) ''ResNet50'' = Inr None
   \<and> generate_figure8 plain_imaging (wrapped_model zero_gradient) ''ResNet50'' one_example ''fig.pdf''
     = (Inr None, [''ERROR: Could not find last conv layer for ResNet50''])
   \<and> generate_figure8 plain_imaging (flat_model zero_gradient) ''resnet50'' one_example ''fig.pdf''
     = (Inl AttributeError, [])
   \<and> grad nan_gradient 0 0 0 = NaN
   \<and> \<not> isl (fst (generate_figure8 plain_imaging (flat_model nan_gradient) ''ResNet50'' one_example ''fig.pdf''))
   \<and> length (the (projr (fst (generate_figure8 plain_imaging (flat_model nan_gradient) ''ResNet50''
                                one_example ''fig.pdf'')))) = 1"
proof -
  have n: "get_last_conv_layer_name (layers (wrapped_model zero_gradient)) ''ResNet50'' = Inr None"
    by code_simp
  have b: "base_layers (layers (flat_model zero_gradient)) = Inl AttributeError"
    by code_simp
  have s: "get_last_conv_layer_name (layers (flat_model nan_gradient)) ''ResNet50'' = Inr (Some ''conv2d'')"
    by code_simp
  have ne: "one_example \<noteq> []"
    by (simp add: one_example_def)
  have g: "\<forall>ex \<in> set one_example. true_class ex < 3
      \<and> (\<exists>img co. load_image plain_imaging (path ex) = Inr img
           \<and> grad_model (flat_model nan_gradient) ''conv2d'' img (Some (pred_class ex)) = Inr co
           \<and> 2 \<le> height co \<and> 2 \<le> width co)"
    by (simp add: one_example_def flat_model_def plain_imaging_def nan_gradient_def)
  have o: "\<forall>img pixels alpha. \<not> isl (superimpose plain_imaging img pixels alpha)"
    by (simp add: plain_imaging_def)
  have f: "savefig plain_imaging ''fig.pdf'' = None"
    by (simp add: plain_imaging_def)
  have v: "grad nan_gradient 0 0 0 = NaN"
    by (simp add: nan_gradient_def)
  have l: "length one_example = 1"
    by (simp add: one_example_def)
  have 1: "generate_figure8 plain_imaging (wrapped_model zero_gradient) ''ResNet50'' one_example ''fig.pdf''
     = (Inr None, [''ERROR: Could not find last conv layer for ResNet50''])"
    using missing_layer_is_reported_not_raised [of "wrapped_model zero_gradient" "''ResNet50''"
        AttributeError plain_imaging one_example "''fig.pdf''" "''conv2d''"] n
    by simp
  have 2: "generate_figure8 plain_imaging (flat_model zero_gradient) ''resnet50'' one_example ''fig.pdf''
     = (Inl AttributeError, [])"
    using missing_layer_is_reported_not_raised [of "flat_model zero_gradient" "''resnet50''"
        AttributeError plain_imaging one_example "''fig.pdf''" "''conv2d''"] b
    by simp
  obtain rows where 3: "fst (generate_figure8 plain_imaging (flat_model nan_gradient) ''ResNet50''
        one_example ''fig.pdf'') = Inr (Some rows)" and 4: "length rows = length one_example"
    using missing_layer_is_reported_not_raised [of "flat_model nan_gradient" "''ResNet50''"
        AttributeError plain_imaging one_example "''fig.pdf''" "''conv2d''"] s ne g o f
    by blast
  show ?thesis
    using n 1 2 v 3 4 l by simp
qed

text \<open>
  C9 as stated fails: for a transfer-learning model called with the name \<open>ResNet50\<close> no
  layer is found and the call returns normally after its error line; and with a NaN
  gradient the heatmap is computed and the figure is made.
\<close>

theorem missing_layer_does_not_abort:
  "generate_figure8 plain_imaging (wrapped_model zero_gradient) ''ResNet50'' one_example ''fig.pdf''
     = (Inr None, [''ERROR: Could not find last conv layer for ResNet50''])
   \<and> \<not> isl (fst (generate_figure8 plain_imaging (wrapped_model zero_gradient) ''ResNet50''
                    one_example ''fig.pdf''))
   \<and> grad nan_gradient 0 0 0 = NaN
   \<and> \<not> isl (make_gradcam_heatmap () (flat_model nan_gradient) ''conv2d'' (Some 1))
   \<and> \<not> isl (fst (generate_figure8 plain_imaging (flat_model nan_gradient) ''ResNet50''
                    one_example ''fig.pdf''))"
  by code_simp

end
